theory Spec2Isabelle
  imports Main "HOL-Library.Word"
begin

section \<open>Data model\<close>

subsection \<open>ObjectIds and strings\<close>

text \<open>
  The engagement controller (likes, comments, follows) works on five Mongoose collections
  and one Socket.IO server handle. A document id is an ObjectId: twelve bytes, written as
  24 lower-case hexadecimal digits by \<open>toString()\<close>. The ids a request carries
  (\<open>contentId\<close>, \<open>parentComment\<close>, the route parameters \<open>commentId\<close> and \<open>targetUserId\<close>)
  are strings; Mongoose casts them wherever they are used as an ObjectId. The cast, as the
  bson library does it since its version 6, accepts 24 hexadecimal digits in either case
  and fails on every other string. Values of a request that are not strings are outside
  this model.
\<close>

definition isHexDigit :: "char \<Rightarrow> bool" where
  "isHexDigit c = (c \<in> set ''0123456789abcdefABCDEF'')"

definition toLowerHex :: "char \<Rightarrow> char" where
  "toLowerHex c =
     (if c = CHR ''A'' then CHR ''a'' else if c = CHR ''B'' then CHR ''b''
      else if c = CHR ''C'' then CHR ''c'' else if c = CHR ''D'' then CHR ''d''
      else if c = CHR ''E'' then CHR ''e'' else if c = CHR ''F'' then CHR ''f'' else c)"

definition isObjectIdHex :: "string \<Rightarrow> bool" where
  "isObjectIdHex s = (length s = 24 \<and> list_all (\<lambda>c. c \<in> set ''0123456789abcdef'') s)"

typedef oid = "{s. isObjectIdHex s}"
proof
  show "replicate 24 (CHR ''0'') \<in> {s. isObjectIdHex s}"
    by (simp add: isObjectIdHex_def list_all_iff)
qed

text \<open>\<open>ObjectId.prototype.toString\<close>.\<close>

definition toString :: "oid \<Rightarrow> string" where
  "toString i = Rep_oid i"

text \<open>The cast of a string to an ObjectId; \<open>None\<close> is the cast error.\<close>

definition castObjectId :: "string \<Rightarrow> oid option" where
  "castObjectId s =
     (if length s = 24 \<and> list_all isHexDigit s then Some (Abs_oid (map toLowerHex s)) else None)"

text \<open>The text of a comment is a JavaScript string: a sequence of UTF-16 code units. Its
  \<open>length\<close> counts code units.\<close>

type_synonym utf16 = "16 word list"

subsection \<open>Documents\<close>

text \<open>\<open>likeSchema\<close>: the fields of a Like row. The compound index on (user, content) is
  unique; it is enforced by \<open>Like_create\<close> below.\<close>

record like =
  user :: oid
  content :: oid
  contentType :: string

text \<open>\<open>commentSchema\<close>, with the defaults the schema declares.\<close>

record comment =
  user :: oid
  content :: oid
  contentType :: string
  "text" :: utf16
  parentComment :: "oid option"
  likesCount :: int
  repliesCount :: int
  isEdited :: bool
  active :: bool

text \<open>\<open>followSchema\<close>.\<close>

record follow =
  follower :: oid
  following :: oid
  status :: string

text \<open>The part of \<open>userSchema\<close> the controller reads or writes: the two populated fields
  and the denormalised counters under \<open>stats\<close>.\<close>

record stats =
  followers :: int
  following :: int

record user =
  name :: string
  profilePicture :: string
  stats :: stats

text \<open>The store: Video and Article are only asked whether an id exists; comments and users
  are keyed by \<open>_id\<close>; Like and Follow rows are kept in insertion order.\<close>

record db =
  videos :: "oid set"
  articles :: "oid set"
  comments :: "oid \<rightharpoonup> comment"
  likes :: "like list"
  follows :: "follow list"
  users :: "oid \<rightharpoonup> user"

subsection \<open>Errors, responses and events\<close>

text \<open>What a storage call or the handler body can throw into the handler's \<open>catch\<close>:
  the cast error of a query (the value and the path), a Mongoose validation error (the
  failing paths, each with the kind of the failure: a validator, or \<open>ObjectId\<close> for a
  failed cast), a duplicate key on a unique index, the error a \<open>pre('save')\<close> hook passes
  to \<open>next\<close>, and the TypeError of calling \<open>emit\<close> on an undefined \<open>req.io\<close>.\<close>

datatype thrown =
  CastError string string
  | ValidationError "(string \<times> string) set"
  | DuplicateKey
  | HookError string
  | TypeError

text \<open>The message of an error built by \<open>createError\<close>: a literal of the controller, or
  \<open>error.message\<close> of a caught error.\<close>

datatype message = Text string | ErrorMessage thrown

text \<open>A comment as returned by \<open>findById(...).populate('user', 'name profilePicture')\<close>:
  the stored document and the selected fields of its author (\<open>None\<close> when the user row is
  gone).\<close>

record populatedComment =
  docId :: oid
  doc :: comment
  author :: "(string \<times> string) option"

datatype body =
  Message string
  | LikeDoc like
  | CommentDoc "populatedComment option"
  | FollowDoc follow

text \<open>\<open>Json s b\<close> is \<open>res.status(s).json(b)\<close>; \<open>Next s m\<close> is
  \<open>next(createError(s, m))\<close>, which the error middleware answers with status \<open>s\<close>.\<close>

datatype response = Json nat body | Next nat message

text \<open>The payloads. \<open>userId\<close> is the ObjectId of the authenticated user; \<open>contentId\<close>,
  \<open>commentId\<close> and \<open>targetUserId\<close> are the strings of the request.\<close>

datatype payload =
  LikePayload string oid string
  | CommentPayload string "populatedComment option"
  | CommentDeleted string string
  | FollowPayload string oid string

text \<open>One Socket.IO emission. \<open>room = None\<close> is \<open>io.emit(name, data)\<close>, which reaches every
  connected socket; \<open>room = Some r\<close> is \<open>io.to(r).emit(name, data)\<close>.\<close>

record event =
  room :: "string option"
  eventName :: string
  payload :: payload

record outcome =
  store :: db
  emitted :: "event list"
  response :: response

text \<open>The \<open>catch\<close> of every handler: what was thrown is answered with
  \<open>next(createError(500, error.message))\<close>; the store is as the writes before the throw
  left it, and nothing more is emitted.\<close>

definition caught :: "db \<Rightarrow> thrown + 'a \<Rightarrow> ('a \<Rightarrow> outcome) \<Rightarrow> outcome" where
  "caught d r k =
     (case r of
        Inl e \<Rightarrow> \<lparr>store = d, emitted = [], response = Next 500 (ErrorMessage e)\<rparr>
      | Inr x \<Rightarrow> k x)"

section \<open>utils/socketEvents.js\<close>

definition getContentRoomId :: "string \<Rightarrow> string \<Rightarrow> string" where
  "getContentRoomId cType cId = cType @ '':'' @ cId"

definition getUserRoomId :: "string \<Rightarrow> string" where
  "getUserRoomId uId = ''user:'' @ uId"

definition emitToRoom :: "string \<Rightarrow> string \<Rightarrow> payload \<Rightarrow> event" where
  "emitToRoom roomId evName data = \<lparr>room = Some roomId, eventName = evName, payload = data\<rparr>"

definition emitToUser :: "string \<Rightarrow> string \<Rightarrow> payload \<Rightarrow> event" where
  "emitToUser uId evName data =
     \<lparr>room = Some (''user:'' @ uId), eventName = evName, payload = data\<rparr>"

text \<open>\<open>req.io.emit(name, data)\<close> as the controller calls it: no room is selected.\<close>

definition io_emit :: "string \<Rightarrow> payload \<Rightarrow> event" where
  "io_emit evName data = \<lparr>room = None, eventName = evName, payload = data\<rparr>"

section \<open>Storage operations\<close>

text \<open>A query or update whose filter names a document by a string of the request: the
  string is cast first, and a failed cast is thrown as a CastError on that path.\<close>

definition withId :: "string \<Rightarrow> string \<Rightarrow> (oid \<Rightarrow> 'a) \<Rightarrow> thrown + 'a" where
  "withId path v f =
     (case castObjectId v of None \<Rightarrow> Inl (CastError v path) | Some j \<Rightarrow> Inr (f j))"

definition Video_exists :: "db \<Rightarrow> string \<Rightarrow> thrown + bool" where
  "Video_exists d v = withId ''_id'' v (\<lambda>j. j \<in> videos d)"

definition Article_exists :: "db \<Rightarrow> string \<Rightarrow> thrown + bool" where
  "Article_exists d v = withId ''_id'' v (\<lambda>j. j \<in> articles d)"

definition Comment_exists :: "db \<Rightarrow> string \<Rightarrow> thrown + bool" where
  "Comment_exists d v = withId ''_id'' v (\<lambda>j. comments d j \<noteq> None)"

definition User_exists :: "db \<Rightarrow> string \<Rightarrow> thrown + bool" where
  "User_exists d v = withId ''_id'' v (\<lambda>j. users d j \<noteq> None)"

text \<open>The validators of a required string path with an \<open>enum\<close>: \<open>required\<close> fails on the
  empty string, \<open>enum\<close> on a value outside the list.\<close>

definition validateEnum :: "string \<Rightarrow> string set \<Rightarrow> string \<Rightarrow> (string \<times> string) set" where
  "validateEnum path allowed v =
     (if v = [] then {(path, ''required'')}
      else if v \<notin> allowed then {(path, ''enum'')}
      else {})"

subsection \<open>Like\<close>

definition Like_findOne :: "db \<Rightarrow> oid \<Rightarrow> string \<Rightarrow> string \<Rightarrow> thrown + like option" where
  "Like_findOne d u v t =
     withId ''content'' v
       (\<lambda>c. find (\<lambda>l. like.user l = u \<and> like.content l = c \<and> like.contentType l = t) (likes d))"

text \<open>\<open>Like.create\<close>: the document is built (casting \<open>content\<close>) and validated, then the
  insert is refused when a row with the same (user, content) is already there. The
  created document is returned with the store.\<close>

definition Like_create :: "db \<Rightarrow> oid \<Rightarrow> string \<Rightarrow> string \<Rightarrow> thrown + like \<times> db" where
  "Like_create d u v t =
     (case castObjectId v of
        None \<Rightarrow>
          Inl (ValidationError ({(''content'', ''ObjectId'')}
                 \<union> validateEnum ''contentType'' {''Video'', ''Comment'', ''Article''} t))
      | Some c \<Rightarrow>
          (let newLike = \<lparr>like.user = u, content = c, contentType = t\<rparr>
           in if validateEnum ''contentType'' {''Video'', ''Comment'', ''Article''} t \<noteq> {}
              then Inl (ValidationError
                     (validateEnum ''contentType'' {''Video'', ''Comment'', ''Article''} t))
              else if list_ex (\<lambda>k. like.user k = u \<and> like.content k = c) (likes d)
              then Inl DuplicateKey
              else Inr (newLike, d\<lparr>likes := likes d @ [newLike]\<rparr>)))"

text \<open>\<open>Like.deleteOne({ _id: existingLike._id })\<close>: the row that was found is removed.\<close>

definition Like_deleteOne :: "db \<Rightarrow> like \<Rightarrow> db" where
  "Like_deleteOne d l = d\<lparr>likes := remove1 l (likes d)\<rparr>"

subsection \<open>Comment\<close>

text \<open>The white space \<open>String.prototype.trim\<close> strips: the WhiteSpace and LineTerminator
  code points of ECMAScript (tab, line feed, vertical tab, form feed, carriage return,
  space, no-break space, the space separators of Unicode, line and paragraph separator,
  and the byte order mark). All of them are single code units.\<close>

definition isWhiteSpace :: "16 word \<Rightarrow> bool" where
  "isWhiteSpace c =
     (c \<in> {0x09, 0x0A, 0x0B, 0x0C, 0x0D, 0x20, 0xA0, 0x1680, 0x2000, 0x2001, 0x2002, 0x2003,
           0x2004, 0x2005, 0x2006, 0x2007, 0x2008, 0x2009, 0x200A, 0x2028, 0x2029, 0x202F,
           0x205F, 0x3000, 0xFEFF})"

definition trim :: "utf16 \<Rightarrow> utf16" where
  "trim s = rev (dropWhile isWhiteSpace (rev (dropWhile isWhiteSpace s)))"

text \<open>The validators of the \<open>text\<close> path, run on the trimmed value (\<open>trim: true\<close> is a
  setter): \<open>required\<close> fails on the empty string, \<open>maxlength\<close> above 1000.\<close>

definition validateText :: "utf16 \<Rightarrow> (string \<times> string) set" where
  "validateText t =
     (if t = [] then {(''text'', ''required'')}
      else if length t > 1000 then {(''text'', ''maxlength'')}
      else {})"

definition validateComment :: "comment \<Rightarrow> (string \<times> string) set" where
  "validateComment c =
     validateEnum ''contentType'' {''Video'', ''Article''} (comment.contentType c)
     \<union> validateText (comment.text c)"

text \<open>The document \<open>Comment.create\<close> builds from the five fields the controller passes,
  with the setter of \<open>text\<close> applied and the schema's defaults filled in.\<close>

definition newComment :: "oid \<Rightarrow> oid \<Rightarrow> string \<Rightarrow> utf16 \<Rightarrow> oid option \<Rightarrow> comment" where
  "newComment u c t x p =
     \<lparr>comment.user = u, content = c, contentType = t, text = trim x, parentComment = p,
      likesCount = 0, repliesCount = 0, isEdited = False, active = True\<rparr>"

text \<open>\<open>Comment.create\<close>. \<open>content\<close> and \<open>parentComment\<close> are cast; a failed cast is one
  more entry of the validation error. \<open>parentComment\<close> is \<open>None\<close> when the body has none
  (or null), and a string otherwise. The \<open>_id\<close> of the new document is generated by the
  driver; it is an input here, and an id already in the collection is a duplicate key.\<close>

definition Comment_create ::
  "db \<Rightarrow> oid \<Rightarrow> oid \<Rightarrow> string \<Rightarrow> string \<Rightarrow> utf16 \<Rightarrow> string option \<Rightarrow> thrown + db" where
  "Comment_create d newId u v t x p =
     (let parentErr = (case p of
                         Some s \<Rightarrow> if castObjectId s = None
                                   then {(''parentComment'', ''ObjectId'')} else {}
                       | None \<Rightarrow> {})
      in case castObjectId v of
           None \<Rightarrow>
             Inl (ValidationError ({(''content'', ''ObjectId'')} \<union> parentErr
                    \<union> validateEnum ''contentType'' {''Video'', ''Article''} t
                    \<union> validateText (trim x)))
         | Some c \<Rightarrow>
             (let new = newComment u c t x (Option.bind p castObjectId)
              in if parentErr \<union> validateComment new \<noteq> {}
                 then Inl (ValidationError (parentErr \<union> validateComment new))
                 else if comments d newId \<noteq> None then Inl DuplicateKey
                 else Inr (d\<lparr>comments := (comments d)(newId \<mapsto> new)\<rparr>)))"

text \<open>\<open>Comment.findByIdAndUpdate(id, { $inc: { repliesCount: n } })\<close> for an ObjectId;
  nothing happens when the id is absent.\<close>

definition Comment_incReplies :: "db \<Rightarrow> oid \<Rightarrow> int \<Rightarrow> db" where
  "Comment_incReplies d i n =
     (case comments d i of
        None \<Rightarrow> d
      | Some c \<Rightarrow> d\<lparr>comments := (comments d)(i \<mapsto> c\<lparr>repliesCount := repliesCount c + n\<rparr>)\<rparr>)"

text \<open>\<open>Comment.findById(commentId)\<close> for the route parameter: the document with its
  \<open>_id\<close>.\<close>

definition Comment_findById :: "db \<Rightarrow> string \<Rightarrow> thrown + (oid \<times> comment) option" where
  "Comment_findById d v = withId ''_id'' v (\<lambda>j. map_option (Pair j) (comments d j))"

definition Comment_findById_populated :: "db \<Rightarrow> oid \<Rightarrow> populatedComment option" where
  "Comment_findById_populated d i =
     (case comments d i of
        None \<Rightarrow> None
      | Some c \<Rightarrow>
          Some \<lparr>docId = i, doc = c,
                author = map_option (\<lambda>u. (name u, profilePicture u)) (users d (comment.user c))\<rparr>)"

text \<open>\<open>comment.save()\<close> after \<open>text\<close> and \<open>isEdited\<close> were assigned: the modified path is
  validated, then the document is written back.\<close>

definition Comment_save :: "db \<Rightarrow> oid \<Rightarrow> comment \<Rightarrow> thrown + db" where
  "Comment_save d i c =
     (let c' = c\<lparr>text := trim (comment.text c)\<rparr>
      in if validateText (comment.text c') \<noteq> {}
         then Inl (ValidationError (validateText (comment.text c')))
         else Inr (d\<lparr>comments := (comments d)(i \<mapsto> c')\<rparr>))"

text \<open>\<open>comment.deleteOne()\<close>: the document is removed from the collection.\<close>

definition Comment_deleteOne :: "db \<Rightarrow> oid \<Rightarrow> db" where
  "Comment_deleteOne d i = d\<lparr>comments := (comments d)(i := None)\<rparr>"

subsection \<open>Follow and User\<close>

definition Follow_findOne :: "db \<Rightarrow> oid \<Rightarrow> string \<Rightarrow> thrown + follow option" where
  "Follow_findOne d a v =
     withId ''following'' v
       (\<lambda>b. find (\<lambda>f. follower f = a \<and> follow.following f = b) (follows d))"

text \<open>\<open>Follow.create\<close>: \<open>following\<close> is cast and the document validated; then the
  \<open>pre('save')\<close> hook of the schema passes an error to \<open>next\<close> when follower and following
  print the same (a hook's \<open>next\<close> takes effect once, so the error stands); then the
  unique index on (follower, following) applies. \<open>status\<close> takes its default.\<close>

definition Follow_create :: "db \<Rightarrow> oid \<Rightarrow> string \<Rightarrow> thrown + follow \<times> db" where
  "Follow_create d a v =
     (case castObjectId v of
        None \<Rightarrow> Inl (ValidationError {(''following'', ''ObjectId'')})
      | Some b \<Rightarrow>
          (let newFollow = \<lparr>follower = a, following = b, status = ''active''\<rparr>
           in if toString a = toString b then Inl (HookError ''Users cannot follow themselves'')
              else if list_ex (\<lambda>f. follower f = a \<and> follow.following f = b) (follows d)
              then Inl DuplicateKey
              else Inr (newFollow, d\<lparr>follows := follows d @ [newFollow]\<rparr>)))"

definition Follow_deleteOne :: "db \<Rightarrow> follow \<Rightarrow> db" where
  "Follow_deleteOne d f = d\<lparr>follows := remove1 f (follows d)\<rparr>"

text \<open>\<open>User.updateOne({ _id }, { $inc: { 'stats.followers': n } })\<close> and the same for
  \<open>stats.following\<close>, for an ObjectId; no document matches an absent id.\<close>

definition User_incFollowers :: "db \<Rightarrow> oid \<Rightarrow> int \<Rightarrow> db" where
  "User_incFollowers d i n =
     (case users d i of
        None \<Rightarrow> d
      | Some u \<Rightarrow>
          d\<lparr>users := (users d)(i \<mapsto> u\<lparr>stats := (stats u)\<lparr>followers := followers (stats u) + n\<rparr>\<rparr>)\<rparr>)"

definition User_incFollowing :: "db \<Rightarrow> oid \<Rightarrow> int \<Rightarrow> db" where
  "User_incFollowing d i n =
     (case users d i of
        None \<Rightarrow> d
      | Some u \<Rightarrow>
          d\<lparr>users := (users d)(i \<mapsto> u\<lparr>stats := (stats u)\<lparr>stats.following := stats.following (stats u) + n\<rparr>\<rparr>)\<rparr>)"

section \<open>controllers/engagementController.js\<close>

text \<open>
  Every handler takes the store, whether \<open>req.io\<close> is defined, the ObjectId of the
  authenticated user (\<open>req.user._id\<close>) and the fields it reads from the request, as the
  strings they are; it returns the store after its writes, the events it emitted and its
  response.
\<close>

subsection \<open>toggleLike\<close>

text \<open>The handler up to and including \<open>Like.findOne\<close>: the existence check, then the
  lookup. \<open>Inl\<close> is the early \<open>return next(...)\<close>, or the \<open>catch\<close>.\<close>

definition toggleLike_find :: "db \<Rightarrow> oid \<Rightarrow> string \<Rightarrow> string \<Rightarrow> response + like option" where
  "toggleLike_find d userId contentId cType =
     (case (if cType = ''Video'' then Video_exists d contentId
            else if cType = ''Article'' then Article_exists d contentId
            else if cType = ''Comment'' then Comment_exists d contentId
            else Inr False) of
        Inl e \<Rightarrow> Inl (Next 500 (ErrorMessage e))
      | Inr contentExists \<Rightarrow>
          if \<not> contentExists then Inl (Next 404 (Text (cType @ '' not found'')))
          else (case Like_findOne d userId contentId cType of
                  Inl e \<Rightarrow> Inl (Next 500 (ErrorMessage e))
                | Inr existingLike \<Rightarrow> Inr existingLike))"

text \<open>The handler after \<open>Like.findOne\<close> returned \<open>existingLike\<close>: the write, the
  emission, the response. The store it writes to is the store as it is at that moment.\<close>

definition toggleLike_write ::
  "db \<Rightarrow> bool \<Rightarrow> oid \<Rightarrow> string \<Rightarrow> string \<Rightarrow> like option \<Rightarrow> outcome" where
  "toggleLike_write d io userId contentId cType existingLike =
     (case existingLike of
        Some l \<Rightarrow>
          \<lparr>store = Like_deleteOne d l,
           emitted = (if io then [io_emit (''like:'' @ contentId)
                                   (LikePayload ''unlike'' userId contentId)] else []),
           response = Json 200 (Message ''Like removed successfully'')\<rparr>
      | None \<Rightarrow>
          caught d (Like_create d userId contentId cType)
            (\<lambda>(newLike, d').
               \<lparr>store = d',
                emitted = (if io then [io_emit (''like:'' @ contentId)
                                        (LikePayload ''like'' userId contentId)] else []),
                response = Json 201 (LikeDoc newLike)\<rparr>))"

text \<open>One request served without interleaving: the lookup and the write see the same
  store.\<close>

definition toggleLike :: "db \<Rightarrow> bool \<Rightarrow> oid \<Rightarrow> string \<Rightarrow> string \<Rightarrow> outcome" where
  "toggleLike d io userId contentId cType =
     (case toggleLike_find d userId contentId cType of
        Inl r \<Rightarrow> \<lparr>store = d, emitted = [], response = r\<rparr>
      | Inr existingLike \<Rightarrow> toggleLike_write d io userId contentId cType existingLike)"

subsection \<open>createComment, updateComment, deleteComment\<close>

text \<open>\<open>if (parentComment)\<close>: a parent that is absent or the empty string is falsy.\<close>

definition ifTruthy :: "string option \<Rightarrow> (string \<Rightarrow> 'a) \<Rightarrow> 'a \<Rightarrow> 'a" where
  "ifTruthy p f g = (case p of Some s \<Rightarrow> if s \<noteq> [] then f s else g | None \<Rightarrow> g)"

definition createComment ::
  "db \<Rightarrow> bool \<Rightarrow> oid \<Rightarrow> string \<Rightarrow> string \<Rightarrow> utf16 \<Rightarrow> string option \<Rightarrow> oid \<Rightarrow> outcome" where
  "createComment d io userId contentId cType txt parent newId =
     caught d (if cType = ''Video'' then Video_exists d contentId
               else if cType = ''Article'' then Article_exists d contentId
               else Inr False)
       (\<lambda>contentExists.
          if \<not> contentExists
          then \<lparr>store = d, emitted = [], response = Next 404 (Text (cType @ '' not found''))\<rparr>
          else
            caught d (ifTruthy parent (\<lambda>p. Comment_exists d p) (Inr True))
              (\<lambda>commentExists.
                 if \<not> commentExists
                 then \<lparr>store = d, emitted = [],
                       response = Next 404 (Text ''Parent comment not found'')\<rparr>
                 else
                   caught d (Comment_create d newId userId contentId cType txt parent)
                     (\<lambda>d1.
                        caught d1 (ifTruthy parent
                                     (\<lambda>p. withId ''_id'' p (\<lambda>j. Comment_incReplies d1 j 1))
                                     (Inr d1))
                          (\<lambda>d2.
                             let populatedComment = Comment_findById_populated d2 newId
                             in \<lparr>store = d2,
                                 emitted = (if io then [io_emit (''comment:'' @ contentId)
                                              (CommentPayload ''new'' populatedComment)] else []),
                                 response = Json 201 (CommentDoc populatedComment)\<rparr>))))"

text \<open>\<open>updateComment\<close> and \<open>deleteComment\<close> call \<open>req.io.emit\<close> without testing
  \<open>req.io\<close>: with \<open>req.io\<close> undefined the call throws after the write.\<close>

definition updateComment :: "db \<Rightarrow> bool \<Rightarrow> string \<Rightarrow> oid \<Rightarrow> utf16 \<Rightarrow> outcome" where
  "updateComment d io commentId userId txt =
     caught d (Comment_findById d commentId)
       (\<lambda>found.
          case found of
            None \<Rightarrow> \<lparr>store = d, emitted = [], response = Next 404 (Text ''Comment not found'')\<rparr>
          | Some (i, c) \<Rightarrow>
              if toString (comment.user c) \<noteq> toString userId
              then \<lparr>store = d, emitted = [],
                    response = Next 403 (Text ''Not authorized to update this comment'')\<rparr>
              else
                caught d (Comment_save d i (c\<lparr>text := txt, isEdited := True\<rparr>))
                  (\<lambda>d1.
                     let populatedComment = Comment_findById_populated d1 i
                     in if io
                        then \<lparr>store = d1,
                              emitted = [io_emit (''comment:'' @ toString (comment.content c))
                                           (CommentPayload ''update'' populatedComment)],
                              response = Json 200 (CommentDoc populatedComment)\<rparr>
                        else \<lparr>store = d1, emitted = [],
                              response = Next 500 (ErrorMessage TypeError)\<rparr>))"

definition deleteComment :: "db \<Rightarrow> bool \<Rightarrow> string \<Rightarrow> oid \<Rightarrow> outcome" where
  "deleteComment d io commentId userId =
     caught d (Comment_findById d commentId)
       (\<lambda>found.
          case found of
            None \<Rightarrow> \<lparr>store = d, emitted = [], response = Next 404 (Text ''Comment not found'')\<rparr>
          | Some (i, c) \<Rightarrow>
              if toString (comment.user c) \<noteq> toString userId
              then \<lparr>store = d, emitted = [],
                    response = Next 403 (Text ''Not authorized to delete this comment'')\<rparr>
              else
                (let d1 = (case parentComment c of
                             Some p \<Rightarrow> Comment_incReplies d p (- 1)
                           | None \<Rightarrow> d);
                     d2 = Comment_deleteOne d1 i
                 in if io
                    then \<lparr>store = d2,
                          emitted = [io_emit (''comment:'' @ toString (comment.content c))
                                       (CommentDeleted ''delete'' commentId)],
                          response = Json 200 (Message ''Comment deleted successfully'')\<rparr>
                    else \<lparr>store = d2, emitted = [],
                          response = Next 500 (ErrorMessage TypeError)\<rparr>))"

subsection \<open>toggleFollow\<close>

text \<open>The first test compares the route parameter, as it was written, with the printed
  id of the caller.\<close>

definition toggleFollow :: "db \<Rightarrow> bool \<Rightarrow> oid \<Rightarrow> string \<Rightarrow> outcome" where
  "toggleFollow d io userId targetUserId =
     (if targetUserId = toString userId
      then \<lparr>store = d, emitted = [],
            response = Next 400 (Text ''Users cannot follow themselves'')\<rparr>
      else
        caught d (User_exists d targetUserId)
          (\<lambda>targetUserExists.
             if \<not> targetUserExists
             then \<lparr>store = d, emitted = [], response = Next 404 (Text ''Target user not found'')\<rparr>
             else
               caught d (Follow_findOne d userId targetUserId)
                 (\<lambda>existingFollow.
                    case existingFollow of
                      Some f \<Rightarrow>
                        (let d1 = Follow_deleteOne d f
                         in caught d1 (withId ''_id'' targetUserId
                                         (\<lambda>t. User_incFollowers d1 t (- 1)))
                              (\<lambda>d2.
                                 let d3 = User_incFollowing d2 userId (- 1)
                                 in \<lparr>store = d3,
                                     emitted = (if io then [io_emit (''follow:'' @ targetUserId)
                                                  (FollowPayload ''unfollow'' userId targetUserId)]
                                                else []),
                                     response = Json 200 (Message ''Unfollowed successfully'')\<rparr>))
                    | None \<Rightarrow>
                        caught d (Follow_create d userId targetUserId)
                          (\<lambda>(newFollow, d1).
                             caught d1 (withId ''_id'' targetUserId
                                          (\<lambda>t. User_incFollowers d1 t 1))
                               (\<lambda>d2.
                                  let d3 = User_incFollowing d2 userId 1
                                  in \<lparr>store = d3,
                                      emitted = (if io then [io_emit (''follow:'' @ targetUserId)
                                                   (FollowPayload ''follow'' userId targetUserId)]
                                                 else []),
                                      response = Json 201 (FollowDoc newFollow)\<rparr>)))))"

section \<open>Sequences of requests\<close>

datatype request =
  ToggleLike bool oid string string
  | CreateComment bool oid string string utf16 "string option" oid
  | UpdateComment bool oid string utf16
  | DeleteComment bool oid string
  | ToggleFollow bool oid string

text \<open>The router: each request goes to its handler. The arguments are, in order,
  whether \<open>req.io\<close> is set, the authenticated user, and the handler's own parameters.\<close>

fun handle :: "db \<Rightarrow> request \<Rightarrow> outcome" where
  "handle d (ToggleLike io u c t) = toggleLike d io u c t"
| "handle d (CreateComment io u c t x p n) = createComment d io u c t x p n"
| "handle d (UpdateComment io u i x) = updateComment d io i u x"
| "handle d (DeleteComment io u i) = deleteComment d io i u"
| "handle d (ToggleFollow io u t) = toggleFollow d io u t"

text \<open>Requests served one after the other, each on the store the previous one left.\<close>

definition run :: "db \<Rightarrow> request list \<Rightarrow> db" where
  "run d rs = fold (\<lambda>r s. store (handle s r)) rs d"

text \<open>The same user toggling the same content once per element of \<open>ios\<close>.\<close>

definition toggleLike_seq :: "db \<Rightarrow> bool list \<Rightarrow> oid \<Rightarrow> string \<Rightarrow> string \<Rightarrow> db" where
  "toggleLike_seq d ios u c t = fold (\<lambda>io s. store (toggleLike s io u c t)) ios d"

text \<open>A request to reply to a given comment: everything \<open>createComment\<close> reads but the
  parent.\<close>

record replyReq =
  rIo :: bool
  rUser :: oid
  rContent :: string
  rType :: string
  rText :: utf16
  rNewId :: oid

text \<open>Posting the replies in order; \<open>None\<close> as soon as one of them is not answered with
  a document.\<close>

fun createReplies :: "db \<Rightarrow> string \<Rightarrow> replyReq list \<Rightarrow> db option" where
  "createReplies d p [] = Some d"
| "createReplies d p (r # rs) =
     (let out = createComment d (rIo r) (rUser r) (rContent r) (rType r) (rText r) (Some p) (rNewId r)
      in case response out of
           Json s b \<Rightarrow> createReplies (store out) p rs
         | Next s m \<Rightarrow> None)"

text \<open>Deleting replies in order, each by the user who posted it, under the id the
  creation answered.\<close>

fun deleteReplies :: "db \<Rightarrow> (bool \<times> replyReq) list \<Rightarrow> db" where
  "deleteReplies d [] = d"
| "deleteReplies d ((io, r) # rs) =
     deleteReplies (store (deleteComment d io (toString (rNewId r)) (rUser r))) rs"

section \<open>Predicates on the store\<close>

text \<open>A Like row of the user for the content a request names by \<open>c\<close>.\<close>

definition hasLike :: "db \<Rightarrow> oid \<Rightarrow> string \<Rightarrow> bool" where
  "hasLike d u c =
     (case castObjectId c of
        None \<Rightarrow> False
      | Some j \<Rightarrow> list_ex (\<lambda>k. like.user k = u \<and> like.content k = j) (likes d))"

text \<open>The value of \<open>contentExists\<close> in \<open>toggleLike\<close>.\<close>

definition likeable :: "db \<Rightarrow> string \<Rightarrow> string \<Rightarrow> bool" where
  "likeable d t c =
     ((t = ''Video'' \<and> Video_exists d c = Inr True) \<or> (t = ''Article'' \<and> Article_exists d c = Inr True)
      \<or> (t = ''Comment'' \<and> Comment_exists d c = Inr True))"

definition hasFollow :: "db \<Rightarrow> oid \<Rightarrow> oid \<Rightarrow> bool" where
  "hasFollow d a b = list_ex (\<lambda>f. follower f = a \<and> follow.following f = b) (follows d)"

definition noSelfFollow :: "db \<Rightarrow> bool" where
  "noSelfFollow d = list_all (\<lambda>f. follower f \<noteq> follow.following f) (follows d)"

section \<open>A small store for examples\<close>

definition u1 :: oid where "u1 = Abs_oid ''64a000000000000000000001''"
definition u2 :: oid where "u2 = Abs_oid ''64a000000000000000000002''"
definition v1 :: oid where "v1 = Abs_oid ''64b000000000000000000001''"
definition a1 :: oid where "a1 = Abs_oid ''64c000000000000000000001''"
definition c1 :: oid where "c1 = Abs_oid ''64d000000000000000000001''"
definition c2 :: oid where "c2 = Abs_oid ''64d000000000000000000002''"
definition c3 :: oid where "c3 = Abs_oid ''64d000000000000000000003''"
definition c4 :: oid where "c4 = Abs_oid ''64d000000000000000000004''"

definition alice :: user where
  "alice = \<lparr>name = ''Alice'', profilePicture = ''a.png'', stats = \<lparr>followers = 0, following = 0\<rparr>\<rparr>"

definition bob :: user where
  "bob = \<lparr>name = ''Bob'', profilePicture = ''b.png'', stats = \<lparr>followers = 0, following = 0\<rparr>\<rparr>"

text \<open>The comment "hello" of user \<open>u1\<close> on the video.\<close>

definition hello :: comment where
  "hello = \<lparr>comment.user = u1, content = v1, contentType = ''Video'',
            text = [0x68, 0x65, 0x6C, 0x6C, 0x6F],
            parentComment = None, likesCount = 0, repliesCount = 0, isEdited = False,
            active = True\<rparr>"

text \<open>One video, one article, two users, and one comment.\<close>

definition db0 :: db where
  "db0 = \<lparr>videos = {v1}, articles = {a1}, comments = [c1 \<mapsto> hello],
          likes = [], follows = [], users = [u1 \<mapsto> alice, u2 \<mapsto> bob]\<rparr>"

text \<open>The reply "hi" of user \<open>u2\<close>.\<close>

definition reply :: comment where
  "reply = \<lparr>comment.user = u2, content = v1, contentType = ''Video'', text = [0x68, 0x69],
            parentComment = Some c1, likesCount = 0, repliesCount = 0, isEdited = False,
            active = True\<rparr>"

text \<open>\<open>db0\<close> after user \<open>u2\<close> replied to the comment.\<close>

definition db1 :: db where
  "db1 = \<lparr>videos = {v1}, articles = {a1},
          comments = [c1 \<mapsto> hello\<lparr>repliesCount := 1\<rparr>, c2 \<mapsto> reply],
          likes = [], follows = [], users = [u1 \<mapsto> alice, u2 \<mapsto> bob]\<rparr>"

text \<open>Three replies to the comment \<open>c1\<close>: "hi", "thanks" and " ok ".\<close>

definition reqA :: replyReq where
  "reqA = \<lparr>rIo = True, rUser = u2, rContent = ''64b000000000000000000001'', rType = ''Video'',
           rText = [0x68, 0x69], rNewId = c2\<rparr>"

definition reqB :: replyReq where
  "reqB = \<lparr>rIo = False, rUser = u1, rContent = ''64B000000000000000000001'', rType = ''Video'',
           rText = [0x74, 0x68, 0x61, 0x6E, 0x6B, 0x73], rNewId = c3\<rparr>"

definition reqC :: replyReq where
  "reqC = \<lparr>rIo = True, rUser = u2, rContent = ''64c000000000000000000001'', rType = ''Article'',
           rText = [0x20, 0x6F, 0x6B, 0x20], rNewId = c4\<rparr>"

section \<open>Auxiliary facts\<close>

subsection \<open>ObjectIds\<close>

lemma toString_eq_iff: "toString a = toString b \<longleftrightarrow> a = b"
  by (simp add: toString_def Rep_oid_inject)

lemma oid_eq_iff: "a = b \<longleftrightarrow> toString a = toString b"
  by (simp add: toString_eq_iff)

lemma toString_Abs: "isObjectIdHex s \<Longrightarrow> toString (Abs_oid s) = s"
  by (simp add: toString_def Abs_oid_inverse)

lemma toLowerHex_lower:
  "c \<in> set ''0123456789abcdef'' \<Longrightarrow> toLowerHex c = c \<and> isHexDigit c"
  by (auto simp add: toLowerHex_def isHexDigit_def)

lemma castObjectId_toString: "castObjectId (toString u) = Some u"
proof -
  have c: "isObjectIdHex (Rep_oid u)" using Rep_oid [of u] by simp
  then have l: "length (Rep_oid u) = 24"
    and m: "\<forall>c \<in> set (Rep_oid u). c \<in> set ''0123456789abcdef''"
    unfolding isObjectIdHex_def list_all_iff by blast+
  from m have h: "list_all isHexDigit (Rep_oid u)"
    unfolding list_all_iff using toLowerHex_lower by blast
  from m have i: "map toLowerHex (Rep_oid u) = Rep_oid u"
    by (intro map_idI) (use toLowerHex_lower in blast)
  show ?thesis
    unfolding castObjectId_def toString_def using l h
    by (simp only: i Rep_oid_inverse if_True simp_thms)
qed

lemma example_strings:
  "toString u1 = ''64a000000000000000000001''" "toString u2 = ''64a000000000000000000002''"
  "toString v1 = ''64b000000000000000000001''" "toString a1 = ''64c000000000000000000001''"
  "toString c1 = ''64d000000000000000000001''" "toString c2 = ''64d000000000000000000002''"
  "toString c3 = ''64d000000000000000000003''" "toString c4 = ''64d000000000000000000004''"
  by (simp_all add: u1_def u2_def v1_def a1_def c1_def c2_def c3_def c4_def toString_Abs
      isObjectIdHex_def)

lemma example_casts:
  "castObjectId ''64a000000000000000000001'' = Some u1"
  "castObjectId ''64a000000000000000000002'' = Some u2"
  "castObjectId ''64b000000000000000000001'' = Some v1"
  "castObjectId ''64c000000000000000000001'' = Some a1"
  "castObjectId ''64d000000000000000000001'' = Some c1"
  "castObjectId ''64d000000000000000000002'' = Some c2"
  "castObjectId ''64d000000000000000000003'' = Some c3"
  "castObjectId ''64d000000000000000000004'' = Some c4"
  using castObjectId_toString [of u1] castObjectId_toString [of u2] castObjectId_toString [of v1]
    castObjectId_toString [of a1] castObjectId_toString [of c1] castObjectId_toString [of c2]
    castObjectId_toString [of c3] castObjectId_toString [of c4]
  by (simp_all only: example_strings)

lemma example_casts_upper:
  "castObjectId ''64A000000000000000000001'' = Some u1"
  "castObjectId ''64A000000000000000000002'' = Some u2"
  "castObjectId ''64B000000000000000000001'' = Some v1"
  "castObjectId ''not-an-id'' = None"
  "castObjectId [] = None"
  by (simp_all add: castObjectId_def isHexDigit_def toLowerHex_def u1_def u2_def v1_def)

lemmas examples = example_strings example_casts example_casts_upper oid_eq_iff

subsection \<open>Like rows\<close>

lemma Like_findOne_absent:
  "castObjectId c = Some j \<Longrightarrow> \<not> hasLike d u c \<Longrightarrow> Like_findOne d u c t = Inr None"
  by (auto simp add: hasLike_def Like_findOne_def withId_def find_None_iff list_ex_iff)

lemma Like_create_absent:
  "castObjectId c = Some j \<Longrightarrow> \<not> hasLike d u c \<Longrightarrow> t \<in> {''Video'', ''Comment'', ''Article''} \<Longrightarrow>
   Like_create d u c t =
     Inr (\<lparr>like.user = u, content = j, contentType = t\<rparr>,
          d\<lparr>likes := likes d @ [\<lparr>like.user = u, content = j, contentType = t\<rparr>]\<rparr>)"
  by (auto simp add: hasLike_def Like_create_def validateEnum_def list_ex_iff Let_def)

lemma Like_create_present:
  "hasLike d u c \<Longrightarrow> t \<in> {''Video'', ''Comment'', ''Article''} \<Longrightarrow>
   Like_create d u c t = Inl DuplicateKey"
  by (auto simp add: hasLike_def Like_create_def validateEnum_def list_ex_iff Let_def
      split: option.splits)

section \<open>Unrecognised content types\<close>

text \<open>
  C9. A \<open>toggleLike\<close> whose \<open>contentType\<close> is none of Video, Article, Comment leaves the
  existence flag false: the handler answers 404 with the message
  "<contentType> not found" (not a 400), emits nothing, and the store, hence every Like
  row, is as before.
\<close>

theorem toggleLike_unknown_type:
  "cType \<notin> {''Video'', ''Article'', ''Comment''} \<Longrightarrow>
   toggleLike d io userId contentId cType =
     \<lparr>store = d, emitted = [], response = Next 404 (Text (cType @ '' not found''))\<rparr>"
  by (simp add: toggleLike_def toggleLike_find_def)

theorem toggleLike_unknown_type_witness:
  "''Playlist'' \<notin> {''Video'', ''Article'', ''Comment''} \<and>
   toggleLike db0 True u1 ''64b000000000000000000001'' ''Playlist'' =
     \<lparr>store = db0, emitted = [], response = Next 404 (Text ''Playlist not found'')\<rparr>"
  using toggleLike_unknown_type [of "''Playlist''" db0 True u1 "''64b000000000000000000001''"]
  by simp

text \<open>
  C10. A \<open>createComment\<close> with \<open>contentType = 'Comment'\<close> is answered 404
  "Comment not found" and writes nothing, whatever the other fields are: its existence
  check knows Video and Article only. The enum of the Comment schema rejects the value as
  well. \<open>toggleLike\<close>, on the other hand, accepts \<open>'Comment'\<close>: on an existing comment the
  user has not liked yet it answers 201 with the new Like row.
\<close>

theorem createComment_on_comment:
  "createComment d io userId contentId ''Comment'' txt parent newId =
     \<lparr>store = d, emitted = [], response = Next 404 (Text ''Comment not found'')\<rparr>
   \<and> validateComment (c\<lparr>comment.contentType := ''Comment''\<rparr>) \<noteq> {}
   \<and> (Comment_exists d contentId = Inr True \<and> \<not> hasLike d userId contentId \<longrightarrow>
        (\<exists>j. castObjectId contentId = Some j \<and>
          response (toggleLike d io userId contentId ''Comment'') =
            Json 201 (LikeDoc \<lparr>like.user = userId, content = j, contentType = ''Comment''\<rparr>)))"
proof (intro conjI impI)
  show "createComment d io userId contentId ''Comment'' txt parent newId =
     \<lparr>store = d, emitted = [], response = Next 404 (Text ''Comment not found'')\<rparr>"
    by (simp add: createComment_def caught_def)
  show "validateComment (c\<lparr>comment.contentType := ''Comment''\<rparr>) \<noteq> {}"
    by (simp add: validateComment_def validateEnum_def)
  assume a: "Comment_exists d contentId = Inr True \<and> \<not> hasLike d userId contentId"
  then obtain j where j: "castObjectId contentId = Some j"
    by (auto simp add: Comment_exists_def withId_def split: option.splits)
  with a have "response (toggleLike d io userId contentId ''Comment'') =
            Json 201 (LikeDoc \<lparr>like.user = userId, content = j, contentType = ''Comment''\<rparr>)"
    by (simp add: toggleLike_def toggleLike_find_def toggleLike_write_def caught_def
        Like_findOne_absent Like_create_absent)
  with j show "\<exists>j. castObjectId contentId = Some j \<and>
          response (toggleLike d io userId contentId ''Comment'') =
            Json 201 (LikeDoc \<lparr>like.user = userId, content = j, contentType = ''Comment''\<rparr>)"
    by blast
qed

theorem createComment_on_comment_witness:
  "createComment db0 True u2 ''64d000000000000000000001'' ''Comment'' [0x68, 0x69] None c2 =
     \<lparr>store = db0, emitted = [], response = Next 404 (Text ''Comment not found'')\<rparr>
   \<and> Comment_exists db0 ''64d000000000000000000001'' = Inr True
   \<and> \<not> hasLike db0 u2 ''64d000000000000000000001''
   \<and> castObjectId ''64d000000000000000000001'' = Some c1
   \<and> response (toggleLike db0 True u2 ''64d000000000000000000001'' ''Comment'') =
          Json 201 (LikeDoc \<lparr>like.user = u2, content = c1, contentType = ''Comment''\<rparr>)"
proof -
  let ?c = "''64d000000000000000000001''"
  have e: "Comment_exists db0 ?c = Inr True"
    by (simp add: Comment_exists_def withId_def db0_def examples)
  have n: "\<not> hasLike db0 u2 ?c" by (simp add: hasLike_def db0_def examples)
  have c: "castObjectId ?c = Some c1" by (simp add: examples)
  note t = createComment_on_comment [of db0 True u2 ?c "[0x68, 0x69]" None c2 hello]
  from t e n obtain j where "castObjectId ?c = Some j"
    and r: "response (toggleLike db0 True u2 ?c ''Comment'') =
          Json 201 (LikeDoc \<lparr>like.user = u2, content = j, contentType = ''Comment''\<rparr>)"
    by blast
  with c have "j = c1" by simp
  with r t e n c show ?thesis by simp
qed

section \<open>The uniqueness constraint on Like rows\<close>

text \<open>
  C3, as the specification states it: when the insert of a Like row hits the unique index
  because a concurrent toggle inserted the row first, \<open>toggleLike\<close> falls back to
  "already existed" and no conflict error reaches the caller. It fails on two requests of
  user \<open>u1\<close> for video \<open>v1\<close> that both look the row up before either writes: both find
  nothing, the first insert is answered 201, the second is answered 500 with the message
  of the duplicate-key error.
\<close>

theorem toggleLike_race_counterexample:
  "toggleLike_find db0 u1 ''64b000000000000000000001'' ''Video'' = Inr None
   \<and> response (toggleLike_write db0 True u1 ''64b000000000000000000001'' ''Video'' None) =
       Json 201 (LikeDoc \<lparr>like.user = u1, content = v1, contentType = ''Video''\<rparr>)
   \<and> response (toggleLike_write
         (store (toggleLike_write db0 True u1 ''64b000000000000000000001'' ''Video'' None))
         True u1 ''64b000000000000000000001'' ''Video'' None) = Next 500 (ErrorMessage DuplicateKey)"
  by (simp add: Let_def toggleLike_find_def toggleLike_write_def caught_def Like_findOne_def
      Like_create_def validateEnum_def Video_exists_def withId_def db0_def examples)

text \<open>
  C3, amended: when the lookup found no row and the insert then hits the unique index on
  (user, content), the handler's \<open>catch\<close> answers 500 with the message of the storage
  error; the store is left as the other writer made it and nothing is emitted.
\<close>

theorem toggleLike_duplicate_key:
  "hasLike d userId contentId \<Longrightarrow> cType \<in> {''Video'', ''Comment'', ''Article''} \<Longrightarrow>
   toggleLike_write d io userId contentId cType None =
     \<lparr>store = d, emitted = [], response = Next 500 (ErrorMessage DuplicateKey)\<rparr>"
  by (simp add: toggleLike_write_def caught_def Like_create_present)

theorem toggleLike_duplicate_key_witness:
  "hasLike (store (toggleLike db0 True u1 ''64b000000000000000000001'' ''Video'')) u1
     ''64b000000000000000000001''
   \<and> ''Video'' \<in> {''Video'', ''Comment'', ''Article''}
   \<and> toggleLike_write (store (toggleLike db0 True u1 ''64b000000000000000000001'' ''Video'')) True
        u1 ''64b000000000000000000001'' ''Video'' None =
     \<lparr>store = store (toggleLike db0 True u1 ''64b000000000000000000001'' ''Video''), emitted = [],
      response = Next 500 (ErrorMessage DuplicateKey)\<rparr>"
proof -
  have h: "hasLike (store (toggleLike db0 True u1 ''64b000000000000000000001'' ''Video'')) u1
     ''64b000000000000000000001''"
    by (simp add: Let_def toggleLike_def toggleLike_find_def toggleLike_write_def caught_def
        Like_findOne_def Like_create_def validateEnum_def Video_exists_def withId_def db0_def
        hasLike_def examples)
  have t: "''Video'' \<in> {''Video'', ''Comment'', ''Article''}" by simp
  show ?thesis using h toggleLike_duplicate_key [OF h t, of True] by simp
qed

section \<open>Deleting a comment\<close>

text \<open>
  C2, as the specification states it: after \<open>deleteComment\<close> by the author the comment row
  still exists, with \<open>active = false\<close>. It fails on the store \<open>db1\<close>: user \<open>u1\<close> deletes
  their comment \<open>c1\<close>, the answer is 200, and no row \<open>c1\<close> is left.
\<close>

theorem deleteComment_counterexample:
  "castObjectId ''64d000000000000000000001'' = Some c1
   \<and> comments db1 c1 = Some (hello\<lparr>repliesCount := 1\<rparr>)
   \<and> comment.user (hello\<lparr>repliesCount := 1\<rparr>) = u1
   \<and> response (deleteComment db1 True ''64d000000000000000000001'' u1) =
       Json 200 (Message ''Comment deleted successfully'')
   \<and> comments (store (deleteComment db1 True ''64d000000000000000000001'' u1)) c1 = None"
  by (simp add: deleteComment_def caught_def Comment_findById_def withId_def Comment_deleteOne_def
      Comment_incReplies_def db1_def hello_def Let_def examples)

text \<open>
  C2, amended: after \<open>deleteComment\<close> by the author the comment row is removed from the
  store (a hard delete; \<open>active\<close> is never written). Every other row stays, unchanged
  except that the parent of the deleted comment, if it has one, has its \<open>repliesCount\<close>
  lowered by one; in particular the children of the deleted comment are not deleted and
  still name it as their parent.
\<close>

theorem deleteComment_removes_row:
  assumes "castObjectId commentId = Some i" and "comments d i = Some c"
    and "comment.user c = userId"
  shows "comments (store (deleteComment d io commentId userId)) i = None
    \<and> (\<forall>k. k \<noteq> i \<longrightarrow>
          comments (store (deleteComment d io commentId userId)) k =
            (if parentComment c = Some k
             then map_option (\<lambda>p. p\<lparr>repliesCount := repliesCount p - 1\<rparr>) (comments d k)
             else comments d k))
    \<and> (\<forall>k ch. k \<noteq> i \<and> comments d k = Some ch \<and> parentComment ch = Some i \<longrightarrow>
          (\<exists>ch'. comments (store (deleteComment d io commentId userId)) k = Some ch'
                \<and> parentComment ch' = Some i \<and> active ch' = active ch
                \<and> comment.text ch' = comment.text ch))"
  using assms
  by (auto simp add: deleteComment_def caught_def Comment_findById_def withId_def
      Comment_deleteOne_def Comment_incReplies_def Let_def split: option.splits)

theorem deleteComment_removes_row_witness:
  "castObjectId ''64D000000000000000000001'' = Some c1
   \<and> comments db1 c1 = Some (hello\<lparr>repliesCount := 1\<rparr>)
   \<and> comment.user (hello\<lparr>repliesCount := 1\<rparr>) = u1
   \<and> comments (store (deleteComment db1 True ''64D000000000000000000001'' u1)) c1 = None
   \<and> comments (store (deleteComment db1 True ''64D000000000000000000001'' u1)) c2 = Some reply
   \<and> parentComment reply = Some c1"
proof -
  have a: "castObjectId ''64D000000000000000000001'' = Some c1"
    by (simp add: castObjectId_def isHexDigit_def toLowerHex_def c1_def)
  have b: "comments db1 c1 = Some (hello\<lparr>repliesCount := 1\<rparr>)"
    by (simp add: db1_def examples)
  have c: "comment.user (hello\<lparr>repliesCount := 1\<rparr>) = u1" by (simp add: hello_def)
  have e: "comments db1 c2 = Some reply" "c2 \<noteq> c1" by (simp_all add: db1_def examples)
  from deleteComment_removes_row [OF a b c, of True] a b c e show ?thesis
    by (simp add: hello_def reply_def)
qed

section \<open>Validation of the comment text\<close>

lemma dropWhile_rev_dropWhile_Nil:
  "dropWhile P (rev (dropWhile P s)) = [] \<longleftrightarrow> dropWhile P s = []"
proof
  assume a: "dropWhile P (rev (dropWhile P s)) = []"
  show "dropWhile P s = []"
  proof (rule ccontr)
    assume n: "dropWhile P s \<noteq> []"
    then have "\<not> P (hd (dropWhile P s))" by (rule hd_dropWhile)
    moreover from n have "hd (dropWhile P s) \<in> set (rev (dropWhile P s))" by simp
    moreover from a have "\<forall>x\<in>set (rev (dropWhile P s)). P x"
      by (simp only: dropWhile_eq_Nil_conv)
    ultimately show False by blast
  qed
next
  assume e: "dropWhile P s = []"
  show "dropWhile P (rev (dropWhile P s)) = []" unfolding e by simp
qed

lemma trim_empty_iff: "trim s = [] \<longleftrightarrow> list_all isWhiteSpace s"
proof -
  have "trim s = [] \<longleftrightarrow> dropWhile isWhiteSpace (rev (dropWhile isWhiteSpace s)) = []"
    unfolding trim_def by (rule rev_is_Nil_conv)
  also have "\<dots> \<longleftrightarrow> dropWhile isWhiteSpace s = []"
    by (rule dropWhile_rev_dropWhile_Nil)
  also have "\<dots> \<longleftrightarrow> list_all isWhiteSpace s"
    by (simp add: list_all_iff)
  finally show ?thesis .
qed

lemma trim_padded:
  assumes "\<not> isWhiteSpace a" and "list_all isWhiteSpace ws"
  shows "trim (replicate (Suc n) a @ ws) = replicate (Suc n) a"
proof -
  have 1: "dropWhile isWhiteSpace (replicate (Suc n) a @ ws) = replicate (Suc n) a @ ws"
    using assms by simp
  have 2: "rev (replicate (Suc n) a @ ws) = rev ws @ replicate (Suc n) a"
    by (simp only: rev_append rev_replicate)
  have 3: "dropWhile isWhiteSpace (rev ws @ replicate (Suc n) a) = replicate (Suc n) a"
    using assms by (simp add: dropWhile_append list_all_iff)
  show ?thesis unfolding trim_def 1 2 3 by (simp only: rev_replicate)
qed

text \<open>What \<open>createComment\<close> answers when the validators of \<open>text\<close> fail: the checks that
  come before the insert, in the order of the handler, then the validation error.\<close>

lemma createComment_invalid_text:
  assumes "validateText (trim txt) \<noteq> {}"
  shows "createComment d io userId contentId cType txt parent newId =
     \<lparr>store = d, emitted = [],
      response =
        (if cType \<notin> {''Video'', ''Article''} then Next 404 (Text (cType @ '' not found''))
         else case castObjectId contentId of
           None \<Rightarrow> Next 500 (ErrorMessage (CastError contentId ''_id''))
         | Some c \<Rightarrow>
             if c \<notin> (if cType = ''Video'' then videos d else articles d)
             then Next 404 (Text (cType @ '' not found''))
             else (case parent of
                     None \<Rightarrow> Next 500 (ErrorMessage (ValidationError (validateText (trim txt))))
                   | Some p \<Rightarrow>
                       if p = []
                       then Next 500 (ErrorMessage (ValidationError
                              ({(''parentComment'', ''ObjectId'')} \<union> validateText (trim txt))))
                       else (case castObjectId p of
                               None \<Rightarrow> Next 500 (ErrorMessage (CastError p ''_id''))
                             | Some j \<Rightarrow>
                                 if comments d j = None
                                 then Next 404 (Text ''Parent comment not found'')
                                 else Next 500 (ErrorMessage
                                        (ValidationError (validateText (trim txt)))))))\<rparr>"
proof (cases "cType \<in> {''Video'', ''Article''}")
  case False
  then show ?thesis by (simp add: createComment_def caught_def)
next
  case True
  show ?thesis
  proof (cases "castObjectId contentId")
    case None
    with True show ?thesis
      by (auto simp add: createComment_def caught_def Video_exists_def Article_exists_def
          withId_def)
  next
    case (Some c)
    have nil: "castObjectId [] = None" by (simp add: castObjectId_def)
    from True Some assms nil show ?thesis
      by (auto simp add: createComment_def caught_def Video_exists_def Article_exists_def
          Comment_exists_def withId_def ifTruthy_def Comment_create_def newComment_def
          validateComment_def validateEnum_def Let_def
          split: option.splits)
  qed
qed

text \<open>
  C4, as the specification states it: an empty or white-space-only text makes
  \<open>createComment\<close> fail with a ValidationError of the bad-input kind (status 400), and a
  text longer than 1000 characters is rejected likewise. It fails on \<open>db0\<close>: the empty
  text, three spaces and 1001 letters are all answered 500, with the message of the
  schema's validation error; and a text of 1001 characters, 1000 letters and a trailing
  space, is accepted and stored trimmed.
\<close>

theorem createComment_text_counterexample:
  "response (createComment db0 True u1 ''64b000000000000000000001'' ''Video'' [] None c2) =
     Next 500 (ErrorMessage (ValidationError {(''text'', ''required'')}))
   \<and> response (createComment db0 True u1 ''64b000000000000000000001'' ''Video''
        [0x20, 0x20, 0x20] None c2) =
     Next 500 (ErrorMessage (ValidationError {(''text'', ''required'')}))
   \<and> response (createComment db0 True u1 ''64b000000000000000000001'' ''Video''
        (replicate 1001 0x61) None c2) =
     Next 500 (ErrorMessage (ValidationError {(''text'', ''maxlength'')}))
   \<and> length (replicate 1000 (0x61 :: 16 word) @ [0x20]) = 1001
   \<and> comments (store (createComment db0 True u1 ''64b000000000000000000001'' ''Video''
         (replicate 1000 0x61 @ [0x20]) None c2)) c2 =
       Some \<lparr>comment.user = u1, content = v1, contentType = ''Video'',
             text = replicate 1000 0x61, parentComment = None, likesCount = 0,
             repliesCount = 0, isEdited = False, active = True\<rparr>"
proof -
  have na: "\<not> isWhiteSpace 0x61" by (simp add: isWhiteSpace_def)
  have ws: "list_all isWhiteSpace [0x20]" by (simp add: isWhiteSpace_def)
  have t1: "trim (replicate 1000 0x61 @ [0x20]) = replicate 1000 0x61"
    using trim_padded [OF na ws, of 999] by simp
  have t2: "trim (replicate 1001 0x61) = replicate 1001 0x61"
    using trim_padded [OF na, of "[]" 1000] by simp
  have t3: "trim [] = []" "trim [0x20, 0x20, 0x20] = []"
    by (simp_all add: trim_def isWhiteSpace_def)
  have e: "Video_exists db0 ''64b000000000000000000001'' = Inr True" "comments db0 c2 = None"
    by (simp_all add: Video_exists_def withId_def db0_def examples)
  show ?thesis
    using e
    by (simp add: createComment_def caught_def ifTruthy_def Comment_create_def newComment_def
        validateComment_def validateEnum_def validateText_def Comment_findById_populated_def
        Let_def t1 t2 t3 example_casts)
qed

text \<open>
  C4, amended: when the text is empty or white space only, or its trimmed form is longer
  than 1000 characters, \<open>createComment\<close> creates no comment row, changes nothing in the
  store and emits nothing, and its answer is an error with status 404 or 500, never 400.
  In the order of the handler: 404 when \<open>contentType\<close> is neither Video nor Article; 500
  with the cast error when \<open>contentId\<close> is not an ObjectId; 404 when the content does not
  exist; for a non-empty \<open>parentComment\<close>, 500 with the cast error when it is not an
  ObjectId and 404 when no such comment exists; otherwise 500 with the message of the
  schema's validation error (\<open>required\<close> or \<open>maxlength\<close> on \<open>text\<close>, together with
  the failed cast of an empty \<open>parentComment\<close>).
\<close>

theorem createComment_bad_text:
  assumes "list_all isWhiteSpace txt \<or> 1000 < length (trim txt)"
  shows "store (createComment d io userId contentId cType txt parent newId) = d
    \<and> emitted (createComment d io userId contentId cType txt parent newId) = []
    \<and> response (createComment d io userId contentId cType txt parent newId) =
        (if cType \<notin> {''Video'', ''Article''} then Next 404 (Text (cType @ '' not found''))
         else case castObjectId contentId of
           None \<Rightarrow> Next 500 (ErrorMessage (CastError contentId ''_id''))
         | Some c \<Rightarrow>
             if c \<notin> (if cType = ''Video'' then videos d else articles d)
             then Next 404 (Text (cType @ '' not found''))
             else (case parent of
                     None \<Rightarrow> Next 500 (ErrorMessage (ValidationError
                              (if list_all isWhiteSpace txt then {(''text'', ''required'')}
                               else {(''text'', ''maxlength'')})))
                   | Some p \<Rightarrow>
                       if p = []
                       then Next 500 (ErrorMessage (ValidationError
                              ({(''parentComment'', ''ObjectId'')} \<union>
                               (if list_all isWhiteSpace txt then {(''text'', ''required'')}
                                else {(''text'', ''maxlength'')}))))
                       else (case castObjectId p of
                               None \<Rightarrow> Next 500 (ErrorMessage (CastError p ''_id''))
                             | Some j \<Rightarrow>
                                 if comments d j = None
                                 then Next 404 (Text ''Parent comment not found'')
                                 else Next 500 (ErrorMessage (ValidationError
                                        (if list_all isWhiteSpace txt then {(''text'', ''required'')}
                                         else {(''text'', ''maxlength'')}))))))
    \<and> (\<exists>m. response (createComment d io userId contentId cType txt parent newId) = Next 404 m
           \<or> response (createComment d io userId contentId cType txt parent newId) = Next 500 m)"
proof -
  have v: "validateText (trim txt) =
      (if list_all isWhiteSpace txt then {(''text'', ''required'')} else {(''text'', ''maxlength'')})"
    using assms by (auto simp add: validateText_def trim_empty_iff)
  then have "validateText (trim txt) \<noteq> {}" by simp
  note c = createComment_invalid_text [OF this, of d io userId contentId cType parent newId]
  show ?thesis
    unfolding c v by (simp split: option.splits)
qed

theorem createComment_bad_text_witness:
  "(list_all isWhiteSpace [0x3000, 0x20, 0x0A] \<or> 1000 < length (trim [0x3000, 0x20, 0x0A]))
   \<and> store (createComment db0 True u1 ''64b000000000000000000001'' ''Video''
        [0x3000, 0x20, 0x0A] None c2) = db0
   \<and> emitted (createComment db0 True u1 ''64b000000000000000000001'' ''Video''
        [0x3000, 0x20, 0x0A] None c2) = []
   \<and> response (createComment db0 True u1 ''64b000000000000000000001'' ''Video''
        [0x3000, 0x20, 0x0A] None c2) =
        Next 500 (ErrorMessage (ValidationError {(''text'', ''required'')}))
   \<and> response (createComment db0 True u1 ''not-an-id'' ''Video''
        [0x3000, 0x20, 0x0A] None c2) =
        Next 500 (ErrorMessage (CastError ''not-an-id'' ''_id''))
   \<and> response (createComment db0 True u1 ''64b000000000000000000001'' ''Video''
        [0x3000, 0x20, 0x0A] (Some []) c2) =
        Next 500 (ErrorMessage (ValidationError
          {(''parentComment'', ''ObjectId''), (''text'', ''required'')}))"
proof -
  have w: "list_all isWhiteSpace [0x3000, 0x20, 0x0A]" by (simp add: isWhiteSpace_def)
  then have h: "list_all isWhiteSpace [0x3000, 0x20, 0x0A]
      \<or> 1000 < length (trim [0x3000, 0x20, 0x0A])" by simp
  from createComment_bad_text [OF h, of db0 True u1 "''64b000000000000000000001''" "''Video''" None c2]
    createComment_bad_text [OF h, of db0 True u1 "''not-an-id''" "''Video''" None c2]
    createComment_bad_text [OF h, of db0 True u1 "''64b000000000000000000001''" "''Video''"
      "Some []" c2]
    h w
  show ?thesis by (simp add: db0_def example_casts example_casts_upper)
qed

section \<open>Event names of the broadcasts\<close>

lemma toggleLike_emitted:
  "e \<in> set (emitted (toggleLike d io u c t)) \<Longrightarrow> room e = None \<and> eventName e = ''like:'' @ c"
  by (auto simp add: toggleLike_def toggleLike_write_def caught_def io_emit_def
      split: sum.splits option.splits if_splits prod.splits)

lemma createComment_emitted:
  "e \<in> set (emitted (createComment d io u c t x p n)) \<Longrightarrow>
   room e = None \<and> eventName e = ''comment:'' @ c"
  by (auto simp add: createComment_def caught_def io_emit_def Let_def
      split: sum.splits if_splits)

lemma updateComment_emitted:
  "e \<in> set (emitted (updateComment d io i u x)) \<Longrightarrow>
   room e = None \<and>
   (\<exists>j k. castObjectId i = Some j \<and> comments d j = Some k
          \<and> eventName e = ''comment:'' @ toString (comment.content k))"
  by (auto simp add: updateComment_def caught_def Comment_findById_def withId_def io_emit_def
      Let_def split: sum.splits option.splits if_splits)

lemma deleteComment_emitted:
  "e \<in> set (emitted (deleteComment d io i u)) \<Longrightarrow>
   room e = None \<and>
   (\<exists>j k. castObjectId i = Some j \<and> comments d j = Some k
          \<and> eventName e = ''comment:'' @ toString (comment.content k))"
  by (auto simp add: deleteComment_def caught_def Comment_findById_def withId_def io_emit_def
      Let_def split: sum.splits option.splits if_splits)

lemma toggleFollow_emitted:
  "e \<in> set (emitted (toggleFollow d io u t)) \<Longrightarrow> room e = None \<and> eventName e = ''follow:'' @ t"
  by (auto simp add: toggleFollow_def caught_def io_emit_def Let_def
      split: sum.splits option.splits if_splits prod.splits)

lemma toggleLike_emits_once:
  "io \<Longrightarrow> response (toggleLike d io u c t) = Json s bd \<Longrightarrow>
   length (emitted (toggleLike d io u c t)) = 1"
  by (auto simp add: toggleLike_def toggleLike_find_def toggleLike_write_def caught_def
      split: sum.splits option.splits if_splits prod.splits)

lemma createComment_emits_once:
  "io \<Longrightarrow> response (createComment d io u c t x p n) = Json s bd \<Longrightarrow>
   length (emitted (createComment d io u c t x p n)) = 1"
  by (auto simp add: createComment_def caught_def Let_def split: sum.splits if_splits)

lemma updateComment_emits_once:
  "io \<Longrightarrow> response (updateComment d io i u x) = Json s bd \<Longrightarrow>
   length (emitted (updateComment d io i u x)) = 1"
  by (auto simp add: updateComment_def caught_def Let_def
      split: sum.splits option.splits if_splits)

lemma deleteComment_emits_once:
  "io \<Longrightarrow> response (deleteComment d io i u) = Json s bd \<Longrightarrow>
   length (emitted (deleteComment d io i u)) = 1"
  by (auto simp add: deleteComment_def caught_def Let_def
      split: sum.splits option.splits if_splits)

lemma toggleFollow_emits_once:
  "io \<Longrightarrow> response (toggleFollow d io u t) = Json s bd \<Longrightarrow>
   length (emitted (toggleFollow d io u t)) = 1"
  by (auto simp add: toggleFollow_def caught_def Let_def
      split: sum.splits option.splits if_splits prod.splits)

lemma handle_emits_once:
  "io \<Longrightarrow> r \<in> {ToggleLike io u c t, CreateComment io u c t x p n, UpdateComment io u i x,
        DeleteComment io u i, ToggleFollow io u b} \<Longrightarrow>
   response (handle d r) = Json s bd \<Longrightarrow> length (emitted (handle d r)) = 1"
  using toggleLike_emits_once createComment_emits_once updateComment_emits_once
    deleteComment_emits_once toggleFollow_emits_once
  by auto

text \<open>
  C1, as the specification states it: the broadcast of an engagement mutation is delivered
  on the channel named "{contentType}:{contentId}" for content events and "user:{userId}"
  for user-targeted events. It fails on \<open>db0\<close>: the like of video \<open>v1\<close> is emitted to no
  room, under the event name "like:" followed by the id, while the content room is
  "Video:" followed by the id; the follow of user \<open>u2\<close> is emitted to no room, under the
  event name "follow:" followed by the id, while the user room is "user:" followed by
  the id.
\<close>

theorem broadcast_counterexample:
  "emitted (toggleLike db0 True u1 ''64b000000000000000000001'' ''Video'') =
     [\<lparr>room = None, eventName = ''like:64b000000000000000000001'',
       payload = LikePayload ''like'' u1 ''64b000000000000000000001''\<rparr>]
   \<and> getContentRoomId ''Video'' ''64b000000000000000000001'' = ''Video:64b000000000000000000001''
   \<and> emitted (toggleFollow db0 True u1 ''64a000000000000000000002'') =
     [\<lparr>room = None, eventName = ''follow:64a000000000000000000002'',
       payload = FollowPayload ''follow'' u1 ''64a000000000000000000002''\<rparr>]
   \<and> getUserRoomId ''64a000000000000000000002'' = ''user:64a000000000000000000002''"
  by (simp add: toggleLike_def toggleLike_find_def toggleLike_write_def caught_def withId_def
      Like_findOne_def Like_create_def validateEnum_def Video_exists_def toggleFollow_def
      User_exists_def Follow_findOne_def Follow_create_def User_incFollowers_def
      User_incFollowing_def io_emit_def getContentRoomId_def getUserRoomId_def db0_def Let_def
      examples)

text \<open>
  C1, amended: every broadcast of an engagement mutation is an \<open>io.emit\<close> to all connected
  sockets, with no room selected, and its event name is computed from an id alone:
  "like:{contentId}" for \<open>toggleLike\<close>, "comment:{contentId}" for \<open>createComment\<close>,
  "comment:{content of the comment}" for \<open>updateComment\<close> and \<open>deleteComment\<close>,
  "follow:{targetUserId}" for \<open>toggleFollow\<close>. A mutation answered with a document or a
  message while \<open>req.io\<close> is set emits exactly one event. The room names
  "{contentType}:{contentId}" and "user:{userId}" are what \<open>getContentRoomId\<close> and
  \<open>getUserRoomId\<close> compute; no mutation emits to them.
\<close>

theorem broadcast_names:
  "(\<forall>e \<in> set (emitted (toggleLike d io u c t)). room e = None \<and> eventName e = ''like:'' @ c)
   \<and> (\<forall>e \<in> set (emitted (createComment d io u c t x p n)).
         room e = None \<and> eventName e = ''comment:'' @ c)
   \<and> (\<forall>e \<in> set (emitted (updateComment d io i u x)).
         room e = None \<and>
         (\<exists>j k. castObjectId i = Some j \<and> comments d j = Some k
                \<and> eventName e = ''comment:'' @ toString (comment.content k)))
   \<and> (\<forall>e \<in> set (emitted (deleteComment d io i u)).
         room e = None \<and>
         (\<exists>j k. castObjectId i = Some j \<and> comments d j = Some k
                \<and> eventName e = ''comment:'' @ toString (comment.content k)))
   \<and> (\<forall>e \<in> set (emitted (toggleFollow d io u b)). room e = None \<and> eventName e = ''follow:'' @ b)
   \<and> (\<forall>r \<in> {ToggleLike io u c t, CreateComment io u c t x p n, UpdateComment io u i x,
              DeleteComment io u i, ToggleFollow io u b}.
         io \<and> (\<exists>s bd. response (handle d r) = Json s bd) \<longrightarrow> length (emitted (handle d r)) = 1)
   \<and> getContentRoomId t c = t @ '':'' @ c
   \<and> getUserRoomId b = ''user:'' @ b"
proof (intro conjI ballI impI)
  fix r
  assume "r \<in> {ToggleLike io u c t, CreateComment io u c t x p n, UpdateComment io u i x,
              DeleteComment io u i, ToggleFollow io u b}"
    and "io \<and> (\<exists>s bd. response (handle d r) = Json s bd)"
  then show "length (emitted (handle d r)) = 1"
    using handle_emits_once [of io r u c t x p n i b d] by blast
qed (use toggleLike_emitted createComment_emitted updateComment_emitted deleteComment_emitted
    toggleFollow_emitted in \<open>auto simp add: getContentRoomId_def getUserRoomId_def\<close>)

theorem broadcast_names_witness:
  "set (emitted (toggleLike db0 True u1 ''64B000000000000000000001'' ''Video'')) =
     {\<lparr>room = None, eventName = ''like:64B000000000000000000001'',
       payload = LikePayload ''like'' u1 ''64B000000000000000000001''\<rparr>}
   \<and> set (emitted (deleteComment db1 True ''64d000000000000000000002'' u2)) =
     {\<lparr>room = None, eventName = ''comment:64b000000000000000000001'',
       payload = CommentDeleted ''delete'' ''64d000000000000000000002''\<rparr>}
   \<and> response (handle db0 (ToggleFollow True u1 ''64a000000000000000000002'')) =
       Json 201 (FollowDoc \<lparr>follower = u1, following = u2, status = ''active''\<rparr>)
   \<and> length (emitted (handle db0 (ToggleFollow True u1 ''64a000000000000000000002''))) = 1
   \<and> map room (emitted (toggleLike db0 True u1 ''64B000000000000000000001'' ''Video'')) = [None]
   \<and> map eventName (emitted (toggleLike db0 True u1 ''64B000000000000000000001'' ''Video'')) =
       [''like:64B000000000000000000001'']
   \<and> map room (emitted (deleteComment db1 True ''64d000000000000000000002'' u2)) = [None]
   \<and> map eventName (emitted (deleteComment db1 True ''64d000000000000000000002'' u2)) =
       [''comment:64b000000000000000000001'']"
proof -
  have 1: "emitted (toggleLike db0 True u1 ''64B000000000000000000001'' ''Video'') =
     [\<lparr>room = None, eventName = ''like:64B000000000000000000001'',
       payload = LikePayload ''like'' u1 ''64B000000000000000000001''\<rparr>]"
    by (simp add: toggleLike_def toggleLike_find_def toggleLike_write_def caught_def withId_def
        Like_findOne_def Like_create_def validateEnum_def Video_exists_def io_emit_def db0_def
        Let_def examples)
  have 2: "emitted (deleteComment db1 True ''64d000000000000000000002'' u2) =
     [\<lparr>room = None, eventName = ''comment:64b000000000000000000001'',
       payload = CommentDeleted ''delete'' ''64d000000000000000000002''\<rparr>]"
    by (simp add: deleteComment_def caught_def Comment_findById_def withId_def io_emit_def
        db1_def reply_def Let_def examples)
  have 3: "response (handle db0 (ToggleFollow True u1 ''64a000000000000000000002'')) =
       Json 201 (FollowDoc \<lparr>follower = u1, following = u2, status = ''active''\<rparr>)"
    by (simp add: toggleFollow_def caught_def withId_def User_exists_def Follow_findOne_def
        Follow_create_def db0_def Let_def examples)
  from broadcast_names [of db0 True u1 "''64B000000000000000000001''" "''Video''" "[]" None c4
      "''64d000000000000000000001''" "''64a000000000000000000002''"]
    1 2 3
  show ?thesis by simp
qed

section \<open>Toggling a like repeatedly\<close>

lemma likeable_cast: "likeable d t c \<Longrightarrow> \<exists>j. castObjectId c = Some j"
  by (auto simp add: likeable_def Video_exists_def Article_exists_def Comment_exists_def
      withId_def split: option.splits)

lemma likeable_find:
  "likeable d t c \<Longrightarrow>
   toggleLike_find d u c t =
     (case Like_findOne d u c t of
        Inl e \<Rightarrow> Inl (Next 500 (ErrorMessage e))
      | Inr existingLike \<Rightarrow> Inr existingLike)"
  by (auto simp add: likeable_def toggleLike_find_def)

lemma likeable_type: "likeable d t c \<Longrightarrow> t \<in> {''Video'', ''Comment'', ''Article''}"
  by (auto simp add: likeable_def)

lemma likeable_likes [simp]: "likeable (d\<lparr>likes := ls\<rparr>) t c = likeable d t c"
  by (simp add: likeable_def Video_exists_def Article_exists_def Comment_exists_def)

lemma toggleLike_absent:
  assumes "likeable d t c" and "castObjectId c = Some j" and "\<not> hasLike d u c"
  shows "store (toggleLike d io u c t) =
           d\<lparr>likes := likes d @ [\<lparr>like.user = u, content = j, contentType = t\<rparr>]\<rparr>"
  using assms likeable_type [OF assms(1)]
  by (simp add: toggleLike_def likeable_find Like_findOne_absent toggleLike_write_def caught_def
      Like_create_absent)

lemma find_append_case:
  "find P (xs @ ys) = (case find P xs of None \<Rightarrow> find P ys | Some x \<Rightarrow> Some x)"
  by (induction xs) auto

lemma Like_findOne_appended:
  assumes "castObjectId c = Some j" and "\<not> hasLike d u c"
  shows "Like_findOne (d\<lparr>likes := likes d @ [\<lparr>like.user = u, content = j, contentType = t\<rparr>]\<rparr>) u c t
         = Inr (Some \<lparr>like.user = u, content = j, contentType = t\<rparr>)"
proof -
  have "find (\<lambda>l. like.user l = u \<and> like.content l = j \<and> like.contentType l = t) (likes d) = None"
    using assms by (auto simp add: hasLike_def find_None_iff list_ex_iff)
  then show ?thesis
    using assms(1) by (simp add: Like_findOne_def withId_def find_append_case)
qed

lemma toggleLike_present:
  assumes "likeable d t c" and "castObjectId c = Some j" and "\<not> hasLike d u c"
  shows "store (toggleLike (d\<lparr>likes := likes d @ [\<lparr>like.user = u, content = j, contentType = t\<rparr>]\<rparr>)
            io u c t) = d"
proof -
  have n: "\<lparr>like.user = u, content = j, contentType = t\<rparr> \<notin> set (likes d)"
    using assms(2,3) by (auto simp add: hasLike_def list_ex_iff)
  have "remove1 \<lparr>like.user = u, content = j, contentType = t\<rparr>
          (likes d @ [\<lparr>like.user = u, content = j, contentType = t\<rparr>]) = likes d"
    using n by (simp add: remove1_append)
  then show ?thesis
    using assms
    by (simp add: toggleLike_def likeable_find Like_findOne_appended toggleLike_write_def
        Like_deleteOne_def)
qed

lemma toggleLike_seq_snoc:
  "toggleLike_seq d (ios @ [io]) u c t = store (toggleLike (toggleLike_seq d ios u c t) io u c t)"
  by (simp add: toggleLike_seq_def)

lemma toggleLike_seq_parity:
  assumes "likeable d t c" and "castObjectId c = Some j" and "\<not> hasLike d u c"
  shows "toggleLike_seq d ios u c t =
           (if even (length ios) then d
            else d\<lparr>likes := likes d @ [\<lparr>like.user = u, content = j, contentType = t\<rparr>]\<rparr>)"
proof (induction ios rule: rev_induct)
  case Nil
  show ?case by (simp add: toggleLike_seq_def)
next
  case (snoc io ios)
  show ?case
    unfolding toggleLike_seq_snoc snoc.IH
    using assms by (simp add: toggleLike_absent toggleLike_present)
qed

text \<open>
  C5, as the specification states it: from any like-state, two sequential applications of
  \<open>toggleLike\<close> leave the Like row absent. It fails when the row is there at the start:
  on \<open>db0\<close> with the like of user \<open>u1\<close> for video \<open>v1\<close> recorded, two applications leave
  the row present.
\<close>

theorem toggleLike_twice_counterexample:
  "likeable db0 ''Video'' ''64b000000000000000000001''
   \<and> hasLike (db0\<lparr>likes := [\<lparr>like.user = u1, content = v1, contentType = ''Video''\<rparr>]\<rparr>)
        u1 ''64b000000000000000000001''
   \<and> hasLike (toggleLike_seq
        (db0\<lparr>likes := [\<lparr>like.user = u1, content = v1, contentType = ''Video''\<rparr>]\<rparr>)
        [True, True] u1 ''64b000000000000000000001'' ''Video'') u1 ''64b000000000000000000001''"
  by (simp add: likeable_def toggleLike_seq_def toggleLike_def toggleLike_find_def
      toggleLike_write_def caught_def withId_def Like_findOne_def Like_create_def
      validateEnum_def Like_deleteOne_def Video_exists_def hasLike_def db0_def Let_def examples)

text \<open>
  C5, amended: for existing content and a user with no Like row for it, any number of
  sequential applications of \<open>toggleLike\<close> leaves the row present when the number is odd
  and absent when it is even; in particular two applications return to the not-liked
  state.
\<close>

theorem toggleLike_parity:
  assumes "likeable d cType contentId" and "\<not> hasLike d userId contentId"
  shows "hasLike (toggleLike_seq d ios userId contentId cType) userId contentId
           \<longleftrightarrow> odd (length ios)"
proof -
  from likeable_cast [OF assms(1)] obtain j where j: "castObjectId contentId = Some j" by blast
  from assms(2) j have n: "\<not> list_ex (\<lambda>k. like.user k = userId \<and> like.content k = j) (likes d)"
    by (simp add: hasLike_def)
  show ?thesis
    unfolding toggleLike_seq_parity [OF assms(1) j assms(2)]
    using n by (simp add: hasLike_def j)
qed

theorem toggleLike_parity_witness:
  "likeable db0 ''Video'' ''64b000000000000000000001'' \<and> \<not> hasLike db0 u1 ''64b000000000000000000001''
   \<and> hasLike (toggleLike_seq db0 [True, False, True] u1 ''64b000000000000000000001'' ''Video'')
        u1 ''64b000000000000000000001''
   \<and> \<not> hasLike (toggleLike_seq db0 [True, True] u1 ''64b000000000000000000001'' ''Video'')
        u1 ''64b000000000000000000001''"
proof -
  have a: "likeable db0 ''Video'' ''64b000000000000000000001''"
    by (simp add: likeable_def Video_exists_def withId_def db0_def examples)
  have b: "\<not> hasLike db0 u1 ''64b000000000000000000001''"
    by (simp add: hasLike_def db0_def examples)
  from toggleLike_parity [OF a b, of "[True, False, True]"]
    toggleLike_parity [OF a b, of "[True, True]"] a b
  show ?thesis by simp
qed

section \<open>Follow and unfollow\<close>

lemma cast_not_self: "castObjectId t = Some b \<Longrightarrow> a \<noteq> b \<Longrightarrow> t \<noteq> toString a"
  using castObjectId_toString [of a] by auto

lemma Follow_findOne_absent:
  "castObjectId t = Some b \<Longrightarrow> \<not> hasFollow d a b \<Longrightarrow> Follow_findOne d a t = Inr None"
  by (auto simp add: hasFollow_def Follow_findOne_def withId_def find_None_iff list_ex_iff)

lemma Follow_create_absent:
  "castObjectId t = Some b \<Longrightarrow> \<not> hasFollow d a b \<Longrightarrow> a \<noteq> b \<Longrightarrow>
   Follow_create d a t =
     Inr (\<lparr>follower = a, following = b, status = ''active''\<rparr>,
          d\<lparr>follows := follows d @ [\<lparr>follower = a, following = b, status = ''active''\<rparr>]\<rparr>)"
  by (auto simp add: hasFollow_def Follow_create_def list_ex_iff Let_def toString_eq_iff)

lemma toggleFollow_absent:
  assumes "castObjectId t = Some b" and "a \<noteq> b" and "users d a = Some ua"
    and "users d b = Some ub" and "\<not> hasFollow d a b"
  shows "toggleFollow d io a t =
    \<lparr>store = d\<lparr>follows := follows d @ [\<lparr>follower = a, following = b, status = ''active''\<rparr>],
                users := (users d)
                  (b \<mapsto> ub\<lparr>stats := (stats ub)\<lparr>followers := followers (stats ub) + 1\<rparr>\<rparr>,
                   a \<mapsto> ua\<lparr>stats := (stats ua)\<lparr>stats.following := stats.following (stats ua) + 1\<rparr>\<rparr>)\<rparr>,
     emitted = (if io then [io_emit (''follow:'' @ t) (FollowPayload ''follow'' a t)] else []),
     response = Json 201 (FollowDoc \<lparr>follower = a, following = b, status = ''active''\<rparr>)\<rparr>"
  using assms cast_not_self [OF assms(1,2)]
  by (simp add: toggleFollow_def caught_def withId_def User_exists_def Follow_findOne_absent
      Follow_create_absent User_incFollowers_def User_incFollowing_def Let_def)

lemma toggleFollow_present:
  assumes "castObjectId t = Some b" and "a \<noteq> b" and "users d a = Some ua"
    and "users d b = Some ub" and "\<not> hasFollow d a b"
  shows "toggleFollow
     (d\<lparr>follows := follows d @ [\<lparr>follower = a, following = b, status = ''active''\<rparr>],
        users := (users d)
          (b \<mapsto> ub\<lparr>stats := (stats ub)\<lparr>followers := followers (stats ub) + 1\<rparr>\<rparr>,
           a \<mapsto> ua\<lparr>stats := (stats ua)\<lparr>stats.following := stats.following (stats ua) + 1\<rparr>\<rparr>)\<rparr>)
     io a t =
    \<lparr>store = d,
     emitted = (if io then [io_emit (''follow:'' @ t) (FollowPayload ''unfollow'' a t)] else []),
     response = Json 200 (Message ''Unfollowed successfully'')\<rparr>"
proof -
  let ?row = "\<lparr>follower = a, following = b, status = ''active''\<rparr>"
  have n: "?row \<notin> set (follows d)"
    using assms(5) by (auto simp add: hasFollow_def list_ex_iff)
  have "find (\<lambda>f. follower f = a \<and> follow.following f = b) (follows d) = None"
    using assms(5) by (auto simp add: hasFollow_def find_None_iff list_ex_iff)
  then have f: "find (\<lambda>f. follower f = a \<and> follow.following f = b) (follows d @ [?row]) = Some ?row"
    by (simp add: find_append_case)
  have r: "remove1 ?row (follows d @ [?row]) = follows d"
    using n by (simp add: remove1_append)
  have u: "(users d)(b \<mapsto> ub, a \<mapsto> ua) = users d"
    using assms(3,4) by (auto simp add: fun_eq_iff)
  show ?thesis
    using assms(1,2) cast_not_self [OF assms(1,2)] f r u
    by (simp add: toggleFollow_def caught_def withId_def User_exists_def Follow_findOne_def
        Follow_deleteOne_def User_incFollowers_def User_incFollowing_def Let_def)
qed

text \<open>
  C6. For distinct existing users A and B with no Follow row from A to B, the first
  \<open>toggleFollow\<close> is answered 201, creates the row and raises \<open>stats.followers\<close> of B and
  \<open>stats.following\<close> of A by one each; the second is answered 200 and gives back the store
  as it was before the first, so both counters are at their initial values again. This
  holds however the two requests spell the id of B.
\<close>

theorem toggleFollow_round_trip:
  assumes "castObjectId t = Some b" and "castObjectId t' = Some b"
    and "a \<noteq> b" and "users d a = Some ua" and "users d b = Some ub" and "\<not> hasFollow d a b"
  shows "response (toggleFollow d io a t) =
           Json 201 (FollowDoc \<lparr>follower = a, following = b, status = ''active''\<rparr>)
    \<and> hasFollow (store (toggleFollow d io a t)) a b
    \<and> map_option (followers \<circ> stats) (users (store (toggleFollow d io a t)) b) =
         Some (followers (stats ub) + 1)
    \<and> map_option (stats.following \<circ> stats) (users (store (toggleFollow d io a t)) a) =
         Some (stats.following (stats ua) + 1)
    \<and> response (toggleFollow (store (toggleFollow d io a t)) io' a t') =
         Json 200 (Message ''Unfollowed successfully'')
    \<and> store (toggleFollow (store (toggleFollow d io a t)) io' a t') = d
    \<and> map_option (followers \<circ> stats)
         (users (store (toggleFollow (store (toggleFollow d io a t)) io' a t')) b) =
         Some (followers (stats ub))
    \<and> map_option (stats.following \<circ> stats)
         (users (store (toggleFollow (store (toggleFollow d io a t)) io' a t')) a) =
         Some (stats.following (stats ua))"
  using assms
  by (simp add: toggleFollow_absent [OF assms(1,3,4,5,6)]
      toggleFollow_present [OF assms(2,3,4,5,6)] hasFollow_def)

theorem toggleFollow_round_trip_witness:
  "castObjectId ''64a000000000000000000002'' = Some u2
   \<and> castObjectId ''64A000000000000000000002'' = Some u2
   \<and> u1 \<noteq> u2 \<and> users db0 u1 = Some alice \<and> users db0 u2 = Some bob
   \<and> \<not> hasFollow db0 u1 u2
   \<and> map_option (followers \<circ> stats)
       (users (store (toggleFollow db0 True u1 ''64a000000000000000000002'')) u2) = Some 1
   \<and> map_option (stats.following \<circ> stats)
       (users (store (toggleFollow db0 True u1 ''64a000000000000000000002'')) u1) = Some 1
   \<and> store (toggleFollow (store (toggleFollow db0 True u1 ''64a000000000000000000002'')) True u1
        ''64A000000000000000000002'') = db0
   \<and> map_option (followers \<circ> stats) (users db0 u2) = Some 0
   \<and> map_option (stats.following \<circ> stats) (users db0 u1) = Some 0"
proof -
  have 0: "castObjectId ''64a000000000000000000002'' = Some u2"
    "castObjectId ''64A000000000000000000002'' = Some u2"
    by (simp_all add: example_casts example_casts_upper)
  have 1: "u1 \<noteq> u2" by (simp add: examples)
  have 2: "users db0 u1 = Some alice" by (simp add: db0_def examples)
  have 3: "users db0 u2 = Some bob" by (simp add: db0_def examples)
  have 4: "\<not> hasFollow db0 u1 u2" by (simp add: hasFollow_def db0_def)
  from toggleFollow_round_trip [OF 0 1 2 3 4, of True True] 0 1 2 3 4
  show ?thesis by (simp add: alice_def bob_def)
qed

section \<open>No user follows themselves\<close>

lemma toggleLike_follows: "follows (store (toggleLike d io u c t)) = follows d"
  by (auto simp add: toggleLike_def toggleLike_write_def caught_def Like_create_def
      Like_deleteOne_def Let_def split: sum.splits option.splits prod.splits if_splits)

lemma Comment_incReplies_follows: "follows (Comment_incReplies d i n) = follows d"
  by (simp add: Comment_incReplies_def split: option.splits)

lemma createComment_follows: "follows (store (createComment d io u c t x p n)) = follows d"
  by (auto simp add: createComment_def caught_def ifTruthy_def withId_def Comment_create_def
      Comment_incReplies_follows Let_def split: sum.splits option.splits if_splits)

lemma updateComment_follows: "follows (store (updateComment d io i u x)) = follows d"
  by (auto simp add: updateComment_def caught_def Comment_save_def Let_def
      split: sum.splits option.splits if_splits)

lemma deleteComment_follows: "follows (store (deleteComment d io i u)) = follows d"
  by (auto simp add: deleteComment_def caught_def Comment_deleteOne_def
      Comment_incReplies_follows Let_def split: sum.splits option.splits)

lemma User_inc_follows:
  "follows (User_incFollowers d i n) = follows d" "follows (User_incFollowing d i n) = follows d"
  by (simp_all add: User_incFollowers_def User_incFollowing_def split: option.splits)

lemma toggleFollow_noSelfFollow:
  "noSelfFollow d \<Longrightarrow> noSelfFollow (store (toggleFollow d io u b))"
  by (auto simp add: toggleFollow_def caught_def withId_def noSelfFollow_def Follow_create_def
      Follow_deleteOne_def User_inc_follows Let_def list_all_iff toString_eq_iff
      split: sum.splits option.splits if_splits prod.splits dest: notin_set_remove1)

lemma handle_noSelfFollow: "noSelfFollow d \<Longrightarrow> noSelfFollow (store (handle d r))"
  by (cases r)
    (simp_all add: toggleFollow_noSelfFollow,
     simp_all add: noSelfFollow_def toggleLike_follows createComment_follows updateComment_follows
       deleteComment_follows)

text \<open>No sequence of requests to the five handlers leads from a store without a
  self-follow row to a store with one.\<close>

lemma run_noSelfFollow: "noSelfFollow d \<Longrightarrow> noSelfFollow (run d rs)"
proof (induction rs arbitrary: d)
  case Nil
  then show ?case by (simp add: run_def)
next
  case (Cons r rs)
  from Cons.prems have "noSelfFollow (store (handle d r))" by (rule handle_noSelfFollow)
  then have "noSelfFollow (run (store (handle d r)) rs)" by (rule Cons.IH)
  then show ?case by (simp add: run_def)
qed

text \<open>What \<open>toggleFollow\<close> answers when the route parameter names the caller, on a store
  without self-follow rows: 400 for the id as \<open>toString\<close> prints it; for any other
  spelling of it 404 when the caller's own row is gone, and otherwise 500 from the
  \<open>pre('save')\<close> hook. The store is never changed.\<close>

lemma toggleFollow_self:
  assumes "castObjectId t = Some u" and "noSelfFollow d"
  shows "toggleFollow d io u t =
     \<lparr>store = d, emitted = [],
      response =
        (if t = toString u then Next 400 (Text ''Users cannot follow themselves'')
         else if users d u = None then Next 404 (Text ''Target user not found'')
         else Next 500 (ErrorMessage (HookError ''Users cannot follow themselves'')))\<rparr>"
proof -
  have "find (\<lambda>f. follower f = u \<and> follow.following f = u) (follows d) = None"
    using assms(2) by (auto simp add: noSelfFollow_def list_all_iff find_None_iff)
  then show ?thesis
    using assms(1)
    by (simp add: toggleFollow_def caught_def withId_def User_exists_def Follow_findOne_def
        Follow_create_def Let_def)
qed

text \<open>
  C8. \<open>toggleFollow\<close> of a user on themselves is to be answered 400
  "Users cannot follow themselves". The handler does so when the route parameter is the
  caller's id as \<open>toString\<close> prints it. When the parameter spells the same id with
  upper-case digits, the comparison of strings at the head of the handler is false, the
  casts in \<open>User.exists\<close> and \<open>Follow.findOne\<close> find the caller, and the request is
  stopped only by the \<open>pre('save')\<close> hook of the Follow schema: the answer is 500. In
  both cases the store is unchanged and no Follow row is written.
\<close>

theorem self_follow_upper_case:
  "toString u1 = ''64a000000000000000000001''
   \<and> castObjectId ''64A000000000000000000001'' = Some u1
   \<and> toggleFollow db0 True u1 ''64a000000000000000000001'' =
       \<lparr>store = db0, emitted = [],
        response = Next 400 (Text ''Users cannot follow themselves'')\<rparr>
   \<and> toggleFollow db0 True u1 ''64A000000000000000000001'' =
       \<lparr>store = db0, emitted = [],
        response = Next 500 (ErrorMessage (HookError ''Users cannot follow themselves''))\<rparr>"
proof -
  have c: "castObjectId ''64A000000000000000000001'' = Some u1"
    "castObjectId ''64a000000000000000000001'' = Some u1"
    by (simp_all add: example_casts example_casts_upper)
  have n: "noSelfFollow db0" by (simp add: noSelfFollow_def db0_def)
  have u: "users db0 u1 = Some alice" by (simp add: db0_def examples)
  show ?thesis
    using c u by (simp add: toggleFollow_self [OF _ n] example_strings)
qed

section \<open>The replies counter\<close>

lemma createComment_reply_Json:
  assumes "response (createComment d io u c t x (Some P) n) = Json s b"
    and "castObjectId P = Some pj"
  shows "comments d n = None \<and>
    (\<exists>cj p0. castObjectId c = Some cj \<and> comments d pj = Some p0 \<and>
       comments (store (createComment d io u c t x (Some P) n)) =
         (comments d)(n \<mapsto> newComment u cj t x (Some pj),
                      pj \<mapsto> p0\<lparr>repliesCount := repliesCount p0 + 1\<rparr>))"
proof -
  have ne: "P \<noteq> []" using assms(2) by (auto simp add: castObjectId_def)
  from assms ne show ?thesis
    by (auto simp add: createComment_def caught_def ifTruthy_def withId_def Video_exists_def
        Article_exists_def Comment_exists_def Comment_create_def Comment_incReplies_def Let_def
        split: if_splits sum.splits option.splits)
qed

lemma deleteComment_reply:
  assumes "comments d i = Some k" and "comment.user k = a" and "parentComment k = Some pj"
    and "comments d pj = Some p" and "pj \<noteq> i"
  shows "comments (store (deleteComment d io (toString i) a)) =
    ((comments d)(pj \<mapsto> p\<lparr>repliesCount := repliesCount p - 1\<rparr>))(i := None)"
  using assms
  by (simp add: deleteComment_def caught_def Comment_findById_def withId_def
      castObjectId_toString Comment_incReplies_def Comment_deleteOne_def Let_def)

lemma createReplies_Cons:
  "createReplies d P (r # rs) = Some d1 \<Longrightarrow>
   \<exists>s b. response (createComment d (rIo r) (rUser r) (rContent r) (rType r) (rText r) (Some P) (rNewId r)) = Json s b
     \<and> createReplies (store (createComment d (rIo r) (rUser r) (rContent r) (rType r) (rText r) (Some P) (rNewId r))) P rs = Some d1"
  by (auto simp add: Let_def split: response.splits)

lemma createReplies_keeps:
  "createReplies d P rs = Some d1 \<Longrightarrow> castObjectId P = Some pj \<Longrightarrow>
   comments d i = Some k \<Longrightarrow> i \<noteq> pj \<Longrightarrow> comments d1 i = Some k"
proof (induction rs arbitrary: d)
  case Nil
  then show ?case by simp
next
  case (Cons r rs)
  let ?out = "createComment d (rIo r) (rUser r) (rContent r) (rType r) (rText r) (Some P) (rNewId r)"
  from createReplies_Cons [OF Cons.prems(1)] obtain s b
    where j: "response ?out = Json s b" and rest: "createReplies (store ?out) P rs = Some d1"
    by blast
  from createComment_reply_Json [OF j Cons.prems(2)] Cons.prems(3,4)
  have "comments (store ?out) i = Some k" by auto
  from Cons.IH [OF rest Cons.prems(2) this Cons.prems(4)] show ?case .
qed

lemma createReplies_count:
  "createReplies d P rs = Some d1 \<Longrightarrow> castObjectId P = Some pj \<Longrightarrow> comments d pj = Some p0 \<Longrightarrow>
   (\<exists>p1. comments d1 pj = Some p1 \<and> repliesCount p1 = repliesCount p0 + int (length rs))
   \<and> (\<forall>r \<in> set rs. rNewId r \<noteq> pj \<and>
        (\<exists>k. comments d1 (rNewId r) = Some k \<and> comment.user k = rUser r
             \<and> parentComment k = Some pj))"
proof (induction rs arbitrary: d p0)
  case Nil
  then show ?case by simp
next
  case (Cons r rs)
  let ?out = "createComment d (rIo r) (rUser r) (rContent r) (rType r) (rText r) (Some P) (rNewId r)"
  from createReplies_Cons [OF Cons.prems(1)] obtain s b
    where j: "response ?out = Json s b" and rest: "createReplies (store ?out) P rs = Some d1"
    by blast
  from createComment_reply_Json [OF j Cons.prems(2)] Cons.prems(3)
  obtain cj where fresh: "comments d (rNewId r) = None"
    and c: "comments (store ?out) =
         (comments d)(rNewId r \<mapsto> newComment (rUser r) cj (rType r) (rText r) (Some pj),
                      pj \<mapsto> p0\<lparr>repliesCount := repliesCount p0 + 1\<rparr>)"
    by auto
  from fresh Cons.prems(3) have ne: "rNewId r \<noteq> pj" by auto
  have P': "comments (store ?out) pj = Some (p0\<lparr>repliesCount := repliesCount p0 + 1\<rparr>)"
    by (simp add: c)
  have new: "comments (store ?out) (rNewId r) =
      Some (newComment (rUser r) cj (rType r) (rText r) (Some pj))"
    using ne by (simp add: c)
  from createReplies_keeps [OF rest Cons.prems(2) new ne]
  have here: "comments d1 (rNewId r) =
      Some (newComment (rUser r) cj (rType r) (rText r) (Some pj))" .
  from Cons.IH [OF rest Cons.prems(2) P'] here ne show ?case
    by (auto simp add: newComment_def)
qed

lemma deleteComment_absent:
  "comments d i = None \<Longrightarrow> comments (store (deleteComment d io j u)) i = None"
  by (auto simp add: deleteComment_def caught_def Comment_incReplies_def Comment_deleteOne_def
      Let_def split: sum.splits option.splits)

lemma deleteReplies_absent:
  "comments d i = None \<Longrightarrow> comments (deleteReplies d dels) i = None"
  by (induction d dels rule: deleteReplies.induct) (simp_all add: deleteComment_absent)

lemma deleteReplies_count:
  assumes "distinct (map (\<lambda>x. rNewId (snd x)) dels)"
    and "\<forall>x \<in> set dels. rNewId (snd x) \<noteq> pj \<and>
          (\<exists>k. comments d (rNewId (snd x)) = Some k \<and> comment.user k = rUser (snd x)
               \<and> parentComment k = Some pj)"
    and "comments d pj = Some p"
  shows "(\<exists>p'. comments (deleteReplies d dels) pj = Some p'
            \<and> repliesCount p' = repliesCount p - int (length dels))
       \<and> (\<forall>x \<in> set dels. comments (deleteReplies d dels) (rNewId (snd x)) = None)"
  using assms
proof (induction dels arbitrary: d p)
  case Nil
  then show ?case by simp
next
  case (Cons x dels)
  obtain io r where x: "x = (io, r)" by (cases x)
  let ?d = "store (deleteComment d io (toString (rNewId r)) (rUser r))"
  from Cons.prems(2) x obtain k where k: "comments d (rNewId r) = Some k"
    "comment.user k = rUser r" "parentComment k = Some pj" and ne: "rNewId r \<noteq> pj"
    by auto
  from deleteComment_reply [OF k Cons.prems(3)] ne
  have c: "comments ?d =
      ((comments d)(pj \<mapsto> p\<lparr>repliesCount := repliesCount p - 1\<rparr>))(rNewId r := None)"
    by auto
  have P': "comments ?d pj = Some (p\<lparr>repliesCount := repliesCount p - 1\<rparr>)"
    using ne by (simp add: c)
  have d': "distinct (map (\<lambda>x. rNewId (snd x)) dels)" using Cons.prems(1) by simp
  have others: "\<forall>y \<in> set dels. rNewId (snd y) \<noteq> pj \<and>
          (\<exists>k. comments ?d (rNewId (snd y)) = Some k \<and> comment.user k = rUser (snd y)
               \<and> parentComment k = Some pj)"
  proof
    fix y assume y: "y \<in> set dels"
    with Cons.prems(1) x have "rNewId (snd y) \<noteq> rNewId r" by (auto simp add: image_iff)
    moreover from Cons.prems(2) y have "rNewId (snd y) \<noteq> pj \<and>
          (\<exists>k. comments d (rNewId (snd y)) = Some k \<and> comment.user k = rUser (snd y)
               \<and> parentComment k = Some pj)" by simp
    ultimately show "rNewId (snd y) \<noteq> pj \<and>
          (\<exists>k. comments ?d (rNewId (snd y)) = Some k \<and> comment.user k = rUser (snd y)
               \<and> parentComment k = Some pj)"
      by (simp add: c)
  qed
  have gone: "comments ?d (rNewId r) = None" by (simp add: c)
  from Cons.IH [OF d' others P'] deleteReplies_absent [OF gone, of dels] x
  show ?case by auto
qed

text \<open>
  C7. Let K replies to an existing comment P be created one after the other by
  \<open>createComment\<close>, each answered with the new document, and let then D of them, pairwise
  different, be deleted by \<open>deleteComment\<close>, each by the user who posted it. After the
  creations \<open>repliesCount\<close> of P is its initial value plus K, and after the deletions it
  is that value plus K minus D: K - D for a comment that started without replies. The
  deleted replies are gone.
\<close>

theorem replies_count:
  assumes "castObjectId P = Some pj"
    and "comments d pj = Some p0"
    and "createReplies d P rs = Some d1"
    and "snd ` set dels \<subseteq> set rs"
    and "distinct (map (\<lambda>x. rNewId (snd x)) dels)"
  shows "(\<exists>p1. comments d1 pj = Some p1 \<and> repliesCount p1 = repliesCount p0 + int (length rs))
    \<and> (\<exists>p2. comments (deleteReplies d1 dels) pj = Some p2
          \<and> repliesCount p2 = repliesCount p0 + int (length rs) - int (length dels)
          \<and> (repliesCount p0 = 0 \<longrightarrow> repliesCount p2 = int (length rs) - int (length dels)))
    \<and> (\<forall>x \<in> set dels. comments (deleteReplies d1 dels) (rNewId (snd x)) = None)"
proof -
  from createReplies_count [OF assms(3,1,2)] obtain p1
    where p1: "comments d1 pj = Some p1" "repliesCount p1 = repliesCount p0 + int (length rs)"
      and rep: "\<forall>r \<in> set rs. rNewId r \<noteq> pj \<and>
        (\<exists>k. comments d1 (rNewId r) = Some k \<and> comment.user k = rUser r
             \<and> parentComment k = Some pj)"
    by blast
  from rep assms(4) have "\<forall>x \<in> set dels. rNewId (snd x) \<noteq> pj \<and>
          (\<exists>k. comments d1 (rNewId (snd x)) = Some k \<and> comment.user k = rUser (snd x)
               \<and> parentComment k = Some pj)"
    by blast
  from deleteReplies_count [OF assms(5) this p1(1)] p1 show ?thesis by auto
qed

theorem replies_count_witness:
  "castObjectId ''64d000000000000000000001'' = Some c1
   \<and> comments db0 c1 = Some hello \<and> repliesCount hello = 0
   \<and> snd ` set [(True, reqC), (False, reqA)] \<subseteq> set [reqA, reqB, reqC]
   \<and> distinct (map (\<lambda>x. rNewId (snd x)) [(True, reqC), (False, reqA)])
   \<and> (case createReplies db0 ''64d000000000000000000001'' [reqA, reqB, reqC] of
         None \<Rightarrow> False
       | Some d1 \<Rightarrow>
           map_option repliesCount (comments d1 c1) = Some 3
           \<and> map_option repliesCount
                (comments (deleteReplies d1 [(True, reqC), (False, reqA)]) c1) = Some 1
           \<and> comments (deleteReplies d1 [(True, reqC), (False, reqA)]) c4 = None
           \<and> comments (deleteReplies d1 [(True, reqC), (False, reqA)]) c2 = None)"
proof -
  have c: "castObjectId ''64d000000000000000000001'' = Some c1" by (simp add: example_casts)
  have 1: "comments db0 c1 = Some hello" by (simp add: db0_def)
  have 0: "repliesCount hello = 0" by (simp add: hello_def)
  have "\<exists>d1. createReplies db0 ''64d000000000000000000001'' [reqA, reqB, reqC] = Some d1"
    by (simp add: createComment_def caught_def ifTruthy_def withId_def Comment_create_def
        newComment_def validateComment_def validateEnum_def validateText_def trim_def
        isWhiteSpace_def Comment_incReplies_def Comment_exists_def Video_exists_def
        Article_exists_def Comment_findById_populated_def reqA_def reqB_def reqC_def db0_def
        Let_def examples)
  then obtain d1 where 2: "createReplies db0 ''64d000000000000000000001'' [reqA, reqB, reqC] = Some d1"
    by blast
  have 3: "snd ` set [(True, reqC), (False, reqA)] \<subseteq> set [reqA, reqB, reqC]" by simp
  have 4: "distinct (map (\<lambda>x. rNewId (snd x)) [(True, reqC), (False, reqA)])"
    by (simp add: reqA_def reqC_def examples)
  from replies_count [OF c 1 2 3 4] 0 1 2 3 4 c
  show ?thesis by (auto simp add: reqA_def reqC_def)
qed

end
